theory Spec2Isabelle
  imports Complex_Main
begin

section \<open>Numeric values\<close>

text \<open>
  Every monetary field of the tracker is a JavaScript string holding a decimal numeral
  (\<^verbatim>\<open>"10.5"\<close>), and is a \<open>string\<close> here. The arithmetic is done either on JavaScript
  Numbers (IEEE 754 binary64) or on \<^verbatim>\<open>Decimal\<close> objects of the decimal.js library. The
  value of a Number or of a \<^verbatim>\<open>Decimal\<close> is a rational, or one of the three non-finite
  values that both print as \<^verbatim>\<open>"Infinity"\<close>, \<^verbatim>\<open>"-Infinity"\<close> and \<^verbatim>\<open>"NaN"\<close>. \<open>Inf True\<close> is
  \<open>+Infinity\<close>. Zero carries no sign: both print \<^verbatim>\<open>-0\<close> as \<^verbatim>\<open>"0"\<close>.
\<close>

datatype numeric = Fin rat | Inf bool | NaN

datatype error = TypeError | DecimalError | RangeError | Unrecognised_case | InvalidArgument

subsection \<open>Powers and logarithms\<close>

function ilog :: "int \<Rightarrow> int \<Rightarrow> int" where
  "ilog b n = (if b \<le> 1 \<or> n < b then 0 else 1 + ilog b (n div b))"
  by pat_completeness auto
termination
  by (relation "measure (\<lambda>(b, n). nat n)") (auto intro!: int_div_less_self)

declare ilog.simps [simp del]

definition floor_log :: "int \<Rightarrow> rat \<Rightarrow> int" where
  \<comment> \<open>the integer \<open>e\<close> with \<open>b ^ e \<le> a < b ^ (e + 1)\<close>, for \<open>0 < a\<close> and \<open>1 < b\<close>\<close>
  "floor_log b a =
     (if 1 \<le> a then ilog b \<lfloor>a\<rfloor>
      else (let c = \<lceil>1 / a\<rceil> in if c \<le> 1 then 0 else - (1 + ilog b (c - 1))))"

function pow_nonneg :: "int \<Rightarrow> int \<Rightarrow> int" where
  "pow_nonneg b e = (if e \<le> 0 then 1 else b * pow_nonneg b (e - 1))"
  by pat_completeness auto
termination
  by (relation "measure (\<lambda>(b, e). nat e)") auto

declare pow_nonneg.simps [simp del]

definition pow_int :: "int \<Rightarrow> int \<Rightarrow> rat" where
  \<comment> \<open>\<open>b\<close> to the power \<open>e\<close>, for an exponent of either sign\<close>
  "pow_int b e = (if 0 \<le> e then of_int (pow_nonneg b e) else 1 / of_int (pow_nonneg b (- e)))"

subsection \<open>Decimal numerals as text\<close>

definition is_digit :: "char \<Rightarrow> bool" where
  "is_digit c = (c \<in> set ''0123456789'')"

definition digit_value :: "char \<Rightarrow> int" where
  \<comment> \<open>the value of a decimal digit, from its character code\<close>
  "digit_value c = of_char c - 48"

definition digit_char :: "int \<Rightarrow> char" where
  \<comment> \<open>the decimal digit of a number from 0 to 9\<close>
  "digit_char d = char_of (48 + d)"

definition digits_value :: "string \<Rightarrow> int" where
  \<comment> \<open>the number that a string of decimal digits denotes\<close>
  "digits_value ds = foldl (\<lambda>n c. 10 * n + digit_value c) 0 ds"

function digits_of :: "int \<Rightarrow> string" where
  \<comment> \<open>the decimal digits of a natural number\<close>
  "digits_of n = (if n < 10 then [digit_char n] else digits_of (n div 10) @ [digit_char (n mod 10)])"
  by pat_completeness auto
termination
  by (relation "measure nat") auto

declare digits_of.simps [simp del]

definition exponent_part :: "string \<Rightarrow> int option" where
  \<comment> \<open>what follows the digits of a numeral: nothing, or \<^verbatim>\<open>e\<close> or \<^verbatim>\<open>E\<close>, an optional sign and
      digits; \<open>None\<close> for anything else\<close>
  "exponent_part s =
     (case s of
        [] \<Rightarrow> Some 0
      | c # r \<Rightarrow>
          if c = CHR ''e'' \<or> c = CHR ''E'' then
            (let (negative, ds) =
                   (case r of
                      [] \<Rightarrow> (False, [])
                    | d # r' \<Rightarrow>
                        if d = CHR ''-'' then (True, r')
                        else if d = CHR ''+'' then (False, r') else (False, r))
             in if ds \<noteq> [] \<and> list_all is_digit ds
                then Some (if negative then - digits_value ds else digits_value ds)
                else None)
          else None)"

definition unsigned_decimal :: "string \<Rightarrow> rat option" where
  \<comment> \<open>an unsigned decimal literal: digits with an optional fraction, or a fraction alone,
      and an optional exponent. It is the \<open>StrUnsignedDecimalLiteral\<close> of ECMAScript
      without \<^verbatim>\<open>Infinity\<close>, and what the expression
      \<^verbatim>\<open>/^(\d+(\.\d*)?|\.\d+)(e[+-]?\d+)?$/i\<close> of decimal.js matches\<close>
  "unsigned_decimal s =
     (let whole = takeWhile is_digit s;
          r = dropWhile is_digit s;
          (fraction, r) =
            (case r of
               [] \<Rightarrow> ([], r)
             | c # r' \<Rightarrow>
                 if c = CHR ''.'' then (takeWhile is_digit r', dropWhile is_digit r') else ([], r))
      in if whole = [] \<and> fraction = [] then None
         else case exponent_part r of
                None \<Rightarrow> None
              | Some e \<Rightarrow>
                  Some (of_int (digits_value (whole @ fraction)) * pow_int 10 (e - int (length fraction))))"

definition signed :: "string \<Rightarrow> bool \<times> string" where
  \<comment> \<open>a leading \<^verbatim>\<open>-\<close> or \<^verbatim>\<open>+\<close> taken off: whether the sign is \<^verbatim>\<open>-\<close>, and the rest\<close>
  "signed s =
     (case s of
        [] \<Rightarrow> (False, s)
      | c # r \<Rightarrow> if c = CHR ''-'' then (True, r) else if c = CHR ''+'' then (False, r) else (False, s))"

definition is_finite_decimal :: "rat \<Rightarrow> bool" where
  \<comment> \<open>the rational has a finite decimal expansion: with \<open>q\<close> its denominator, it needs at
      most \<open>log\<^sub>2 q\<close> digits after the point\<close>
  "is_finite_decimal a =
     (let (p, q) = quotient_of a in (p * pow_nonneg 10 (ilog 2 q + 1)) mod q = 0)"

definition coefficient :: "rat \<Rightarrow> string" where
  \<comment> \<open>the significant digits of a positive rational with a finite decimal expansion, from
      the first digit that is not 0 to the last\<close>
  "coefficient a =
     (let (p, q) = quotient_of a
      in rev (dropWhile (\<lambda>c. c = CHR ''0'') (rev (digits_of ((p * pow_nonneg 10 (ilog 2 q + 1)) div q)))))"

definition zeros :: "int \<Rightarrow> string" where
  "zeros n = replicate (nat n) CHR ''0''"

definition point_notation :: "string \<Rightarrow> int \<Rightarrow> string" where
  \<comment> \<open>the digits \<open>s\<close> with the decimal point after the first \<open>n\<close> of them: zeros are added
      after the digits when \<open>n\<close> is beyond them and before when \<open>n \<le> 0\<close>\<close>
  "point_notation s n =
     (if int (length s) \<le> n then s @ zeros (n - int (length s))
      else if 0 < n then take (nat n) s @ ''.'' @ drop (nat n) s
      else ''0.'' @ zeros (- n) @ s)"

subsection \<open>decimal.js\<close>

text \<open>
  Modelled from the spec: the decimal.js library (imported by \<^verbatim>\<open>functions.ts\<close>, not part
  of the source tree) is taken as the spec describes it, as exact decimal arithmetic.
  Finite operands are combined exactly; the non-finite cases follow the library's
  IEEE-style rules, so that a division by zero is a value (\<open>Infinity\<close> or \<open>NaN\<close>), as
  in the library, and never an exception. The library rounds every result to its working
  precision, 20 significant digits unless configured otherwise; the tracker does not
  configure it, and this rounding is not modelled: results here are exact, which agrees
  with the library whenever the exact result has at most 20 significant digits, and
  otherwise differs from it in the digits after the twentieth.
\<close>

fun Decimal_neg :: "numeric \<Rightarrow> numeric" where
  "Decimal_neg (Fin a) = Fin (- a)"
| "Decimal_neg (Inf s) = Inf (\<not> s)"
| "Decimal_neg NaN = NaN"

fun Decimal_abs :: "numeric \<Rightarrow> numeric" where
  "Decimal_abs (Fin a) = Fin \<bar>a\<bar>"
| "Decimal_abs (Inf s) = Inf True"
| "Decimal_abs NaN = NaN"

fun Decimal_plus :: "numeric \<Rightarrow> numeric \<Rightarrow> numeric" where
  "Decimal_plus NaN y = NaN"
| "Decimal_plus x NaN = NaN"
| "Decimal_plus (Fin a) (Fin b) = Fin (a + b)"
| "Decimal_plus (Fin a) (Inf t) = Inf t"
| "Decimal_plus (Inf s) (Fin b) = Inf s"
| "Decimal_plus (Inf s) (Inf t) = (if s = t then Inf s else NaN)"

definition Decimal_minus :: "numeric \<Rightarrow> numeric \<Rightarrow> numeric" where
  "Decimal_minus x y = Decimal_plus x (Decimal_neg y)"

fun Decimal_times :: "numeric \<Rightarrow> numeric \<Rightarrow> numeric" where
  "Decimal_times NaN y = NaN"
| "Decimal_times x NaN = NaN"
| "Decimal_times (Fin a) (Fin b) = Fin (a * b)"
| "Decimal_times (Fin a) (Inf t) = (if a = 0 then NaN else Inf (t = (0 < a)))"
| "Decimal_times (Inf s) (Fin b) = (if b = 0 then NaN else Inf (s = (0 < b)))"
| "Decimal_times (Inf s) (Inf t) = Inf (s = t)"

fun Decimal_div :: "numeric \<Rightarrow> numeric \<Rightarrow> numeric" where
  "Decimal_div NaN y = NaN"
| "Decimal_div x NaN = NaN"
| "Decimal_div (Fin a) (Fin b) =
     (if b = 0 then (if a = 0 then NaN else Inf (0 < a)) else Fin (a / b))"
| "Decimal_div (Fin a) (Inf t) = Fin 0"
| "Decimal_div (Inf s) (Fin b) = Inf (s = (0 \<le> b))"
| "Decimal_div (Inf s) (Inf t) = NaN"

fun Decimal_greaterThan :: "numeric \<Rightarrow> numeric \<Rightarrow> bool" where
  "Decimal_greaterThan NaN y = False"
| "Decimal_greaterThan x NaN = False"
| "Decimal_greaterThan (Fin a) (Fin b) = (b < a)"
| "Decimal_greaterThan (Fin a) (Inf t) = (\<not> t)"
| "Decimal_greaterThan (Inf s) (Fin b) = s"
| "Decimal_greaterThan (Inf s) (Inf t) = (s \<and> \<not> t)"

text \<open>
  The constructor on a string, \<^verbatim>\<open>new Decimal(s)\<close>, which the methods also apply to a
  string argument: an optional sign and a decimal literal, \<^verbatim>\<open>Infinity\<close> or \<^verbatim>\<open>NaN\<close>; any
  other string throws a \<^verbatim>\<open>DecimalError\<close>. The binary, octal and hexadecimal literals of
  the library are not modelled and throw here.
\<close>

definition Decimal :: "string \<Rightarrow> error + numeric" where
  "Decimal v =
     (let (negative, u) = signed v
      in case unsigned_decimal u of
           Some x \<Rightarrow> Inr (Fin (if negative then - x else x))
         | None \<Rightarrow>
             if u = ''Infinity'' then Inr (Inf (\<not> negative))
             else if u = ''NaN'' then Inr NaN
             else Inl DecimalError)"

text \<open>
  \<^verbatim>\<open>Decimal.prototype.toString\<close>: the digits of the value in normal notation when the
  exponent of its first digit is between \<open>-6\<close> and 20, and in exponential notation
  otherwise (\<^verbatim>\<open>toExpNeg = -7\<close>, \<^verbatim>\<open>toExpPos = 21\<close>). An exact quotient can be without a
  finite expansion, which no \<^verbatim>\<open>Decimal\<close> of the library is: it is printed to the 20
  significant digits of the library's precision, rounded half up.
\<close>

definition Decimal_toString :: "numeric \<Rightarrow> string" where
  "Decimal_toString x =
     (case x of
        NaN \<Rightarrow> ''NaN''
      | Inf s \<Rightarrow> if s then ''Infinity'' else ''-Infinity''
      | Fin d \<Rightarrow>
          if d = 0 then ''0''
          else (let a = (if is_finite_decimal \<bar>d\<bar> then \<bar>d\<bar>
                         else (let q = pow_int 10 (floor_log 10 \<bar>d\<bar> - 19)
                               in of_int \<lfloor>\<bar>d\<bar> / q + 1 / 2\<rfloor> * q));
                    e = floor_log 10 a;
                    str = coefficient a
                in (if d < 0 then ''-'' else '''') @
                   (if e \<le> - 7 \<or> 21 \<le> e
                    then (if length str > 1 then take 1 str @ ''.'' @ drop 1 str else str) @
                         (if e < 0 then ''e-'' else ''e+'') @ digits_of \<bar>e\<bar>
                    else point_notation str (e + 1))))"

subsection \<open>JavaScript Numbers\<close>

text \<open>
  A JavaScript Number is an IEEE 754 binary64 value. \<open>fl x\<close> is the Number nearest to
  the rational \<open>x\<close>: 53 significant bits, ties to the even significand, exponents
  from \<open>-1022\<close> (below which the spacing stays \<open>2 ^ -1074\<close>) to \<open>1023\<close> (above which the
  result is an infinity). This is what \<^verbatim>\<open>Number(s)\<close> returns for a decimal string, and
  what \<^verbatim>\<open>-\<close> and \<^verbatim>\<open>*\<close> return for the exact difference and product of two Numbers.
\<close>

definition round_half_even :: "rat \<Rightarrow> int" where
  "round_half_even y =
     (let f = \<lfloor>y\<rfloor>; d = y - of_int f
      in if d < 1 / 2 then f else if 1 / 2 < d then f + 1 else if even f then f else f + 1)"

definition fl :: "rat \<Rightarrow> numeric" where
  "fl x =
     (if x = 0 then Fin 0
      else let a = \<bar>x\<bar>;
               e = max (floor_log 2 a) (- 1022);
               u = pow_int 2 (e - 52);
               m = round_half_even (a / u)
           in if 1023 < e \<or> (e = 1023 \<and> 9007199254740992 \<le> m) then Inf (0 < x)
              else Fin (sgn x * of_int m * u))"

fun ToNumber :: "numeric \<Rightarrow> numeric" where
  \<comment> \<open>the Number nearest to a value; also \<^verbatim>\<open>ToNumber\<close> of a \<^verbatim>\<open>Decimal\<close> object, which goes
      through the numeral that \<^verbatim>\<open>valueOf\<close> prints\<close>
  "ToNumber (Fin x) = fl x"
| "ToNumber (Inf s) = Inf s"
| "ToNumber NaN = NaN"

definition Number_minus :: "numeric \<Rightarrow> numeric \<Rightarrow> numeric" where
  "Number_minus x y = ToNumber (Decimal_minus x y)"

definition Number_times :: "numeric \<Rightarrow> numeric \<Rightarrow> numeric" where
  "Number_times x y = ToNumber (Decimal_times x y)"

text \<open>
  \<^verbatim>\<open>Number(s)\<close> and the implicit conversion of a string operand (\<open>StringToNumber\<close> of
  ECMAScript): white space is trimmed, the empty string is 0, then a binary, octal or
  hexadecimal integer without a sign, or a decimal literal or \<^verbatim>\<open>Infinity\<close> with an
  optional sign; anything else is \<^verbatim>\<open>NaN\<close>. Strings are strings of ASCII characters here;
  of the white space of ECMAScript, the characters beyond ASCII are left out.
\<close>

definition StrWhiteSpaceChar :: "char \<Rightarrow> bool" where
  "StrWhiteSpaceChar c =
     (c = CHR 0x09 \<or> c = CHR 0x0A \<or> c = CHR 0x0B \<or> c = CHR 0x0C \<or> c = CHR 0x0D \<or> c = CHR 0x20)"

definition trim :: "string \<Rightarrow> string" where
  "trim s = rev (dropWhile StrWhiteSpaceChar (rev (dropWhile StrWhiteSpaceChar s)))"

definition radix_digit :: "char \<Rightarrow> int option" where
  "radix_digit c =
     (if is_digit c then Some (digit_value c)
      else if c = CHR ''a'' \<or> c = CHR ''A'' then Some 10
      else if c = CHR ''b'' \<or> c = CHR ''B'' then Some 11
      else if c = CHR ''c'' \<or> c = CHR ''C'' then Some 12
      else if c = CHR ''d'' \<or> c = CHR ''D'' then Some 13
      else if c = CHR ''e'' \<or> c = CHR ''E'' then Some 14
      else if c = CHR ''f'' \<or> c = CHR ''F'' then Some 15
      else None)"

definition radix_value :: "int \<Rightarrow> string \<Rightarrow> int option" where
  \<comment> \<open>the number that a non-empty string of digits of the radix \<open>b\<close> denotes\<close>
  "radix_value b ds =
     (if ds \<noteq> [] \<and> list_all (\<lambda>c. case radix_digit c of None \<Rightarrow> False | Some d \<Rightarrow> d < b) ds
      then Some (foldl (\<lambda>n c. b * n + (case radix_digit c of None \<Rightarrow> 0 | Some d \<Rightarrow> d)) 0 ds)
      else None)"

definition NonDecimalIntegerLiteral :: "string \<Rightarrow> int option" where
  "NonDecimalIntegerLiteral s =
     (case s of
        z # x # ds \<Rightarrow>
          if z \<noteq> CHR ''0'' then None
          else if x = CHR ''x'' \<or> x = CHR ''X'' then radix_value 16 ds
          else if x = CHR ''o'' \<or> x = CHR ''O'' then radix_value 8 ds
          else if x = CHR ''b'' \<or> x = CHR ''B'' then radix_value 2 ds
          else None
      | _ \<Rightarrow> None)"

definition StringToNumber :: "string \<Rightarrow> numeric" where
  "StringToNumber s =
     (let t = trim s
      in if t = [] then Fin 0
         else case NonDecimalIntegerLiteral t of
                Some n \<Rightarrow> fl (of_int n)
              | None \<Rightarrow>
                  (let (negative, u) = signed t
                   in if u = ''Infinity'' then Inf (\<not> negative)
                      else case unsigned_decimal u of
                             None \<Rightarrow> NaN
                           | Some x \<Rightarrow> fl (if negative then - x else x)))"

text \<open>
  \<^verbatim>\<open>Number.prototype.toString\<close> prints the shortest decimal numeral that converts back
  to the same Number: the least number \<open>k\<close> of significant digits for which a
  \<open>k\<close>-digit decimal rounds to the Number, and among those the decimal nearest to it
  (the even one on a tie). Seventeen digits always suffice for a binary64 value. With
  \<open>n\<close> the position of the decimal point in these digits, the numeral is in normal
  notation for \<open>-6 < n \<le> 21\<close> and in exponential notation otherwise.
\<close>

definition digits_candidates :: "rat \<Rightarrow> int \<Rightarrow> int \<Rightarrow> rat list" where
  \<comment> \<open>the \<open>k\<close>-digit decimals next to \<open>a\<close> (with \<open>10 ^ (n - 1) \<le> a < 10 ^ n\<close>) that read back as
      \<open>a\<close>, nearest first\<close>
  "digits_candidates a n k =
     (let q = pow_int 10 (n - k);
          lo = of_int \<lfloor>a / q\<rfloor> * q;
          hi = of_int \<lceil>a / q\<rceil> * q
      in filter (\<lambda>c. fl c = Fin a)
           (if a - lo < hi - a then [lo, hi]
            else if hi - a < a - lo then [hi, lo]
            else if even \<lfloor>a / q\<rfloor> then [lo, hi] else [hi, lo]))"

fun shortest_digits :: "rat \<Rightarrow> int \<Rightarrow> int list \<Rightarrow> rat" where
  "shortest_digits a n [] = a"
| "shortest_digits a n (k # ks) =
     (case digits_candidates a n k of
        c # cs \<Rightarrow> c
      | [] \<Rightarrow> shortest_digits a n ks)"

definition shortest_decimal :: "rat \<Rightarrow> rat" where
  \<comment> \<open>the value of the numeral that is printed for the positive Number \<open>a\<close>\<close>
  "shortest_decimal a =
     shortest_digits a (floor_log 10 a + 1) [1, 2, 3, 4, 5, 6, 7, 8, 9, 10, 11, 12, 13, 14, 15, 16, 17]"

definition Number_toString :: "numeric \<Rightarrow> string" where
  "Number_toString x =
     (case x of
        NaN \<Rightarrow> ''NaN''
      | Inf s \<Rightarrow> if s then ''Infinity'' else ''-Infinity''
      | Fin d \<Rightarrow>
          if d = 0 then ''0''
          else (let c = shortest_decimal \<bar>d\<bar>;
                    n = floor_log 10 c + 1;
                    s = coefficient c
                in (if d < 0 then ''-'' else '''') @
                   (if - 6 < n \<and> n \<le> 21 then point_notation s n
                    else (if length s > 1 then take 1 s @ ''.'' @ drop 1 s else s) @
                         (if n - 1 < 0 then ''e-'' else ''e+'') @ digits_of \<bar>n - 1\<bar>)))"

text \<open>
  \<^verbatim>\<open>new Decimal(-x)\<close>: the unary minus of JavaScript first converts its operand to a
  Number, a string by \<open>StringToNumber\<close> and a \<^verbatim>\<open>Decimal\<close> through its \<^verbatim>\<open>valueOf\<close>; the
  constructor then reads the Number through its \<^verbatim>\<open>toString\<close>.
\<close>

definition Decimal_of_Number :: "numeric \<Rightarrow> error + numeric" where
  \<comment> \<open>\<^verbatim>\<open>new Decimal(v)\<close> for a Number \<open>v\<close>\<close>
  "Decimal_of_Number v = Decimal (Number_toString v)"

section \<open>The position ledger (\<^verbatim>\<open>utils/functions.ts\<close>, \<^verbatim>\<open>utils/trading.ts\<close>)\<close>

subsection \<open>Data\<close>

text \<open>
  A position as the exchange reports it. The numeric fields are strings; \<open>exitPrice\<close>
  is \<^verbatim>\<open>null\<close> (here \<open>None\<close>) until a part of the position has been closed.
\<close>

record position =
  market :: string
  side :: string
  status :: string
  size_p :: string
  sumOpen :: string
  sumClose :: string
  entryPrice :: string
  exitPrice :: "string option"
  netFunding :: string
  createdAtHeight :: string
  createdAt :: string

record fill =
  fill_createdAtHeight :: string
  fill_createdAt :: string

text \<open>
  The ledger row (\<^verbatim>\<open>TradeInterface\<close> and the lifecycle tag \<^verbatim>\<open>type\<close>). The address is
  \<open>None\<close> when the handler passes \<^verbatim>\<open>undefined\<close>.
\<close>

record trader_position =
  user :: nat
  trade_id :: string
  trader_address :: "string option"
  token :: string
  bias :: nat
  size_t :: string
  sum_open :: string
  sum_close :: string
  limit_price :: string
  exit_price :: "string option"
  start_date :: string
  end_date :: "string option"
  funding :: string
  realised_pnl :: string
  pnl :: string
  is_profitable :: nat
  type :: string

definition OPEN_STATUS :: string where
  "OPEN_STATUS = ''OPEN''"

definition CLOSED_STATUS :: string where
  "CLOSED_STATUS = ''CLOSED''"

text \<open>
  Rows are JavaScript objects, and the engine shares them: the lane map holds the object
  of a live lane, \<^verbatim>\<open>updateExistingPosition\<close>, \<^verbatim>\<open>flipPosition\<close> and \<^verbatim>\<open>closePosition\<close> assign
  to its fields, and \<^verbatim>\<open>aggregatePositions\<close> pushes the object itself, not a copy, onto
  the processor queue. So the state keeps every row object created so far in a list,
  and a reference to a row is its index in that list. An object literal appends a new
  object; an assignment replaces the object at its index; the lane map and the
  processor queue hold references.

  \<^verbatim>\<open>TRADER_POSITIONS\<close> is a JavaScript \<^verbatim>\<open>Map\<close> from the instrument symbol to the lane.
  It is modelled as the list of its entries in insertion order, so that holding one
  entry per key is a property to prove and not a consequence of the type:
  \<^verbatim>\<open>set\<close> replaces the value of a present key where it stands and appends an absent
  one, \<^verbatim>\<open>delete\<close> removes the entries of the key, \<^verbatim>\<open>get\<close> returns the first one.
\<close>

fun Map_set :: "'k \<Rightarrow> 'v \<Rightarrow> ('k \<times> 'v) list \<Rightarrow> ('k \<times> 'v) list" where
  "Map_set k v [] = [(k, v)]"
| "Map_set k v ((k', v') # m) = (if k' = k then (k, v) # m else (k', v') # Map_set k v m)"

definition Map_delete :: "'k \<Rightarrow> ('k \<times> 'v) list \<Rightarrow> ('k \<times> 'v) list" where
  "Map_delete k m = filter (\<lambda>e. fst e \<noteq> k) m"

definition Map_get :: "('k \<times> 'v) list \<Rightarrow> 'k \<Rightarrow> 'v option" where
  "Map_get m k = map_of m k"

definition Map_has :: "('k \<times> 'v) list \<Rightarrow> 'k \<Rightarrow> bool" where
  "Map_has m k = (Map_get m k \<noteq> None)"

record ledger =
  objects :: "trader_position list"
  TRADER_POSITIONS :: "(string \<times> nat) list"
  processorQueue :: "nat list"

definition new_object :: "trader_position \<Rightarrow> ledger \<Rightarrow> nat \<times> ledger" where
  \<comment> \<open>an object literal: the reference to the new object, and the state that holds it\<close>
  "new_object row st = (length (objects st), st \<lparr> objects := objects st @ [row] \<rparr>)"

definition assign :: "nat \<Rightarrow> (trader_position \<Rightarrow> trader_position) \<Rightarrow> ledger \<Rightarrow> ledger" where
  \<comment> \<open>assignments to fields of the object behind a reference\<close>
  "assign ref f st = st \<lparr> objects := (objects st)[ref := f (objects st ! ref)] \<rparr>"

text \<open>
  \<^verbatim>\<open>aggregatePositions\<close> (\<^verbatim>\<open>services/processor.ts\<close>) pushes the task
  \<^verbatim>\<open>{ trader_position }\<close> onto the processor queue: the task holds the reference.
\<close>

definition aggregatePositions :: "nat \<Rightarrow> ledger \<Rightarrow> ledger" where
  "aggregatePositions trader_position st =
     st \<lparr> processorQueue := processorQueue st @ [trader_position] \<rparr>"

subsection \<open>Helpers for the JavaScript idioms\<close>

definition remove_dashes :: "string \<Rightarrow> string" where
  \<comment> \<open>\<^verbatim>\<open>s.replace(/-/g, "")\<close>\<close>
  "remove_dashes s = filter (\<lambda>c. c \<noteq> CHR ''-'') s"

definition truthy :: "string option \<Rightarrow> bool" where
  \<comment> \<open>a string or \<^verbatim>\<open>null\<close> as a condition: \<^verbatim>\<open>null\<close>, \<^verbatim>\<open>undefined\<close> and \<^verbatim>\<open>""\<close> are falsy\<close>
  "truthy x = (case x of None \<Rightarrow> False | Some s \<Rightarrow> s \<noteq> [])"

definition or_else :: "string option \<Rightarrow> string \<Rightarrow> string" where
  \<comment> \<open>\<^verbatim>\<open>x ? x : d\<close>\<close>
  "or_else x d = (case x of None \<Rightarrow> d | Some s \<Rightarrow> if s = [] then d else s)"

definition template :: "string option \<Rightarrow> string" where
  \<comment> \<open>a value inside a template literal\<close>
  "template x = (case x of None \<Rightarrow> ''undefined'' | Some s \<Rightarrow> s)"

definition and_then :: "error + 'a \<Rightarrow> ('a \<Rightarrow> error + 'b) \<Rightarrow> error + 'b" where
  \<comment> \<open>an exception of the first computation ends the sequence\<close>
  "and_then r f = (case r of Inl e \<Rightarrow> Inl e | Inr x \<Rightarrow> f x)"

subsection \<open>\<^verbatim>\<open>functions.ts\<close>\<close>

definition compute_realised_pnl :: "position \<Rightarrow> string" where
  \<comment> \<open>the first statements of \<^verbatim>\<open>createNewPosition\<close> and of \<^verbatim>\<open>updateExistingPosition\<close>,
      and the \<^verbatim>\<open>realised_pnl.toString()\<close> that both store; all of it on Numbers\<close>
  "compute_realised_pnl position =
     (let realised_pnl =
            (if truthy (exitPrice position) \<and> truthy (Some (entryPrice position))
             then Number_times (StringToNumber (sumClose position))
                    (Number_minus (StringToNumber (case exitPrice position of None \<Rightarrow> [] | Some s \<Rightarrow> s))
                       (StringToNumber (entryPrice position)))
             else Fin 0);
          realised_pnl = (if side position = ''LONG'' then realised_pnl else Decimal_neg realised_pnl)
      in Number_toString realised_pnl)"

definition createNewPosition ::
  "nat \<Rightarrow> position \<Rightarrow> string option \<Rightarrow> string option \<Rightarrow> string option \<Rightarrow> string \<Rightarrow>
   ledger \<Rightarrow> nat \<times> ledger" where
  "createNewPosition user' position address blockHeight createdAt' type' st =
     (let symbol = remove_dashes (market position);
          blockHeight = or_else blockHeight (createdAtHeight position);
          createdAt' = or_else createdAt' (createdAt position);
          (trader_position, st) = new_object
            \<lparr> user = user',
              trade_id = template address @ ''-'' @ symbol @ ''-'' @ side position @ ''-'' @ blockHeight,
              trader_address = address,
              token = symbol,
              bias = (if side position = ''LONG'' then 1 else 0),
              size_t = size_p position,
              sum_open = sumOpen position,
              sum_close = sumClose position,
              limit_price = entryPrice position,
              exit_price = exitPrice position,
              start_date = createdAt',
              end_date = None,
              funding = netFunding position,
              realised_pnl = compute_realised_pnl position,
              pnl = ''0'',
              is_profitable = 0,
              type = type' \<rparr> st
      in (trader_position, aggregatePositions trader_position st))"

definition updateExistingPosition :: "nat \<Rightarrow> position \<Rightarrow> ledger \<Rightarrow> nat \<times> ledger" where
  "updateExistingPosition trader_position position st =
     (let st = assign trader_position
            (\<lambda>row. row
               \<lparr> size_t := size_p position,
                 sum_open := sumOpen position,
                 sum_close := sumClose position,
                 limit_price := entryPrice position,
                 exit_price := exitPrice position,
                 funding := netFunding position,
                 realised_pnl := compute_realised_pnl position,
                 pnl := ''0'',
                 is_profitable := 0,
                 type := ''update'' \<rparr>) st
      in (trader_position, aggregatePositions trader_position st))"

text \<open>
  \<^verbatim>\<open>flipPosition\<close> closes the lane that changes direction. Every \<^verbatim>\<open>Decimal\<close> is computed
  before the first assignment, so a string that the constructor refuses leaves the
  object as it was; the \<^verbatim>\<open>catch\<close> rethrows.
\<close>

definition flipPosition :: "nat \<Rightarrow> position \<Rightarrow> string \<Rightarrow> ledger \<Rightarrow> error + ledger" where
  "flipPosition trader_position position end_date' st =
     (let row = objects st ! trader_position
      in and_then (Decimal (sumOpen position)) (\<lambda>sumOpen'.
         and_then (Decimal (size_p position)) (\<lambda>size'.
         and_then (Decimal (sumClose position)) (\<lambda>sumClose'.
         let last_position = Decimal_minus (Decimal_minus sumOpen' (Decimal_abs size')) sumClose'
         in and_then
              (case exit_price row of
                 Some exit \<Rightarrow>
                   if exit = [] then Decimal (entryPrice position)
                   else and_then (Decimal (entryPrice position)) (\<lambda>entryPrice'.
                        and_then (Decimal (sum_close row)) (\<lambda>sum_close'.
                        and_then (Decimal exit) (\<lambda>exit_price'.
                          Inr (Decimal_div
                                 (Decimal_plus (Decimal_times last_position entryPrice')
                                    (Decimal_times sum_close' exit_price'))
                                 (Decimal_plus sum_close' last_position)))))
               | None \<Rightarrow> Decimal (entryPrice position)) (\<lambda>avg_close.
         and_then (Decimal (sum_close row)) (\<lambda>sum_close'.
         let adjusted_size = Decimal_plus sum_close' last_position
         in and_then
              (if bias row = 0 then Decimal_of_Number (Decimal_neg (ToNumber adjusted_size))
               else Inr adjusted_size) (\<lambda>adjusted_size.
         and_then (Decimal (limit_price row)) (\<lambda>limit_price'.
         and_then (Decimal (funding row)) (\<lambda>funding'.
         let pnl' = Decimal_plus (Decimal_times adjusted_size (Decimal_minus avg_close limit_price'))
                      funding'
         in Inr (aggregatePositions trader_position
                   (assign trader_position
                      (\<lambda>row. row
                         \<lparr> size_t := Decimal_toString adjusted_size,
                           exit_price := Some (Decimal_toString avg_close),
                           end_date := Some end_date',
                           realised_pnl := ''0'',
                           pnl := Decimal_toString pnl',
                           is_profitable := (if Decimal_greaterThan pnl' (Fin 0) then 1 else 0),
                           type := ''close'' \<rparr>) st)))))))))))"

text \<open>
  \<^verbatim>\<open>closePosition\<close>: \<^verbatim>\<open>new Decimal(position.exitPrice)\<close> throws on \<^verbatim>\<open>null\<close>, like every
  constructor before anything is assigned.
\<close>

definition closePosition :: "nat \<Rightarrow> position \<Rightarrow> string \<Rightarrow> ledger \<Rightarrow> error + ledger" where
  "closePosition trader_position position end_date' st =
     and_then
       (if side position = ''LONG'' then Decimal (sumClose position)
        else Decimal_of_Number (Decimal_neg (StringToNumber (sumClose position)))) (\<lambda>size'.
     and_then (case exitPrice position of None \<Rightarrow> Inl DecimalError | Some exit \<Rightarrow> Decimal exit)
       (\<lambda>exitPrice'.
     and_then (Decimal (entryPrice position)) (\<lambda>entryPrice'.
     let pnl' = Decimal_times size' (Decimal_minus exitPrice' entryPrice')
     in Inr (aggregatePositions trader_position
               (assign trader_position
                  (\<lambda>row. row
                     \<lparr> size_t := Decimal_toString size',
                       limit_price := entryPrice position,
                       exit_price := exitPrice position,
                       end_date := Some end_date',
                       realised_pnl := ''0'',
                       pnl := Decimal_toString pnl',
                       is_profitable := (if Decimal_greaterThan pnl' (Fin 0) then 1 else 0),
                       type := ''close'' \<rparr>) st)))))"

definition isTrackedSymbol :: "string list \<Rightarrow> string \<Rightarrow> bool" where
  \<comment> \<open>\<^verbatim>\<open>cachedPairs.has(symbol)\<close> (\<^verbatim>\<open>utils/symbols.ts\<close>); the cache is given by its keys\<close>
  "isTrackedSymbol cachedPairs symbol = (symbol \<in> set cachedPairs)"

subsection \<open>\<^verbatim>\<open>processSubscriptions\<close>\<close>

definition processSubscriptions_step ::
  "string list \<Rightarrow> nat \<Rightarrow> string option \<Rightarrow> string \<times> position \<Rightarrow> ledger \<Rightarrow> ledger" where
  \<comment> \<open>the body of the \<^verbatim>\<open>for ... in\<close> loop\<close>
  "processSubscriptions_step cachedPairs user' traderAddress entry st =
     (let symbol = remove_dashes (fst entry)
      in if \<not> isTrackedSymbol cachedPairs symbol then st
         else if Map_get (TRADER_POSITIONS st) symbol \<noteq> None then st
         else (let position = snd entry;
                   (new_position, st) =
                     createNewPosition user' position traderAddress
                       (Some (createdAtHeight position)) (Some (createdAt position)) ''update'' st
               in st \<lparr> TRADER_POSITIONS := Map_set symbol new_position (TRADER_POSITIONS st) \<rparr>))"

definition processSubscriptions ::
  "string list \<Rightarrow> nat \<Rightarrow> string option \<Rightarrow> (string \<times> position) list option \<Rightarrow> ledger \<Rightarrow> ledger" where
  "processSubscriptions cachedPairs user' traderAddress positions st =
     (case positions of
        None \<Rightarrow> st
      | Some entries \<Rightarrow> fold (processSubscriptions_step cachedPairs user' traderAddress) entries st)"

subsection \<open>\<^verbatim>\<open>updatePosition\<close>\<close>

definition first_fill :: "fill list \<Rightarrow> error + fill" where
  \<comment> \<open>\<^verbatim>\<open>fills[0].createdAt\<close>: reading a property of \<^verbatim>\<open>undefined\<close> throws a TypeError\<close>
  "first_fill fills = (case fills of [] \<Rightarrow> Inl TypeError | f # fs \<Rightarrow> Inr f)"

text \<open>
  The body of the inner \<^verbatim>\<open>try\<close>, for one position. Every exception of a branch is
  thrown before the branch has written anything (the arguments \<^verbatim>\<open>fills[0]...\<close> are
  evaluated before the call; \<^verbatim>\<open>flipPosition\<close> and \<^verbatim>\<open>closePosition\<close> throw before their
  assignments), so an error leaves the ledger as it was.
\<close>

definition updatePosition_step ::
  "string list \<Rightarrow> nat \<Rightarrow> string option \<Rightarrow> fill list \<Rightarrow> position \<Rightarrow> ledger \<Rightarrow> error + ledger" where
  "updatePosition_step cachedPairs user' traderAddress fills position st =
     (let symbol = remove_dashes (market position);
          bias' = (if side position = ''LONG'' then 1 else 0 :: nat)
      in if \<not> isTrackedSymbol cachedPairs symbol then Inr st
         else case Map_get (TRADER_POSITIONS st) symbol of
           None \<Rightarrow>
             \<comment> \<open>CASE 1: create completely new position\<close>
             and_then (first_fill fills) (\<lambda>f.
               let (trader_position, st) =
                     createNewPosition user' position traderAddress
                       (Some (fill_createdAtHeight f)) (Some (fill_createdAt f)) ''open'' st
               in Inr (st \<lparr> TRADER_POSITIONS := Map_set symbol trader_position (TRADER_POSITIONS st) \<rparr>))
         | Some trader_position \<Rightarrow>
             if status position = OPEN_STATUS \<and> bias (objects st ! trader_position) = bias' then
               \<comment> \<open>CASE 2: update existing position\<close>
               (let (trader_position, st) = updateExistingPosition trader_position position st
                in Inr (st \<lparr> TRADER_POSITIONS := Map_set symbol trader_position (TRADER_POSITIONS st) \<rparr>))
             else if status position = OPEN_STATUS \<and> bias (objects st ! trader_position) \<noteq> bias' then
               \<comment> \<open>CASE 3: change direction of the position\<close>
               and_then (first_fill fills) (\<lambda>f.
               and_then (flipPosition trader_position position (fill_createdAt f) st) (\<lambda>st.
                 let (trader_position, st) =
                       createNewPosition user' position traderAddress
                         (Some (fill_createdAtHeight f)) (Some (fill_createdAt f)) ''open'' st
                 in Inr (st \<lparr> TRADER_POSITIONS := Map_set symbol trader_position (TRADER_POSITIONS st) \<rparr>)))
             else if status position = CLOSED_STATUS then
               \<comment> \<open>CASE 4: close completely the position\<close>
               and_then (first_fill fills) (\<lambda>f.
               and_then (closePosition trader_position position (fill_createdAt f) st) (\<lambda>st.
                 Inr (st \<lparr> TRADER_POSITIONS := Map_delete symbol (TRADER_POSITIONS st) \<rparr>)))
             else Inl Unrecognised_case)"

fun updatePosition_loop ::
  "string list \<Rightarrow> nat \<Rightarrow> string option \<Rightarrow> fill list \<Rightarrow> position list \<Rightarrow> ledger \<Rightarrow> ledger" where
  \<comment> \<open>the \<^verbatim>\<open>for ... of\<close> loop; the inner \<^verbatim>\<open>catch\<close> logs the error and goes on\<close>
  "updatePosition_loop cachedPairs user' traderAddress fills [] st = st"
| "updatePosition_loop cachedPairs user' traderAddress fills (position # positions) st =
     updatePosition_loop cachedPairs user' traderAddress fills positions
       (case updatePosition_step cachedPairs user' traderAddress fills position st of
          Inl e \<Rightarrow> st
        | Inr st' \<Rightarrow> st')"

definition updatePosition ::
  "string list \<Rightarrow> nat \<Rightarrow> string option \<Rightarrow> position list option \<Rightarrow> fill list option \<Rightarrow>
   ledger \<Rightarrow> ledger" where
  "updatePosition cachedPairs user' traderAddress positions fills st =
     (case fills of
        None \<Rightarrow> st
      | Some fills' \<Rightarrow>
          (case positions of
             None \<Rightarrow> st
           | Some positions' \<Rightarrow>
               updatePosition_loop cachedPairs user' traderAddress fills' positions' st))"

section \<open>The connection supervisor (\<^verbatim>\<open>services/websocket.ts\<close>)\<close>

text \<open>
  The closure of \<^verbatim>\<open>initWebSocketTraderMemory\<close> as a state, and each handler as a
  function on it. Timers and the socket belong to the environment: the state counts
  the calls of \<^verbatim>\<open>websocket.close()\<close> and the reconnects that a handler has scheduled
  with \<^verbatim>\<open>setTimeout(connect, RECONNECT_INTERVAL)\<close>; a scheduled \<^verbatim>\<open>connect\<close> runs
  without looking at any flag.
\<close>

datatype json_field = Absent | Null | Str string

record parsed_message =
  msg_id :: "string option"
  msg_account :: json_field
  msg_type :: "string option"
  openPerpetualPositions :: "(string \<times> position) list option"
  perpetualPositions :: "position list option"
  fills :: "fill list option"

datatype frame = Unparsable | Parsed parsed_message

record session =
  shouldReconnect :: bool
  close_calls :: nat
  reconnects_scheduled :: nat
  ledger_state :: ledger

definition SUBSCRIPTION_TYPE :: string where
  "SUBSCRIPTION_TYPE = ''subscribed''"

definition DATA_TYPE :: string where
  "DATA_TYPE = ''channel_data''"

definition connect :: "trader_position list \<Rightarrow> nat list \<Rightarrow> session" where
  \<comment> \<open>the state after \<^verbatim>\<open>connect()\<close>: a new socket with a new, empty lane map; the row
      objects and the processor queue are global and passed in\<close>
  "connect rows queue =
     \<lparr> shouldReconnect = True, close_calls = 0, reconnects_scheduled = 0,
       ledger_state = \<lparr> objects = rows, TRADER_POSITIONS = [], processorQueue = queue \<rparr> \<rparr>"

definition messageQueue_worker :: "string list \<Rightarrow> nat \<Rightarrow> frame \<Rightarrow> session \<Rightarrow> session" where
  "messageQueue_worker cachedPairs user' task s =
     (case task of
        Unparsable \<Rightarrow>
          \<comment> \<open>\<^verbatim>\<open>JSON.parse\<close> throws; the \<^verbatim>\<open>catch\<close> schedules \<^verbatim>\<open>connect\<close>\<close>
          s \<lparr> reconnects_scheduled := Suc (reconnects_scheduled s) \<rparr>
      | Parsed parsedMessage \<Rightarrow>
          (let account = map_option (takeWhile (\<lambda>c. c \<noteq> CHR ''/'')) (msg_id parsedMessage)
           in if msg_account parsedMessage = Str ''undefined'' \<or> msg_account parsedMessage = Null
              then s \<lparr> close_calls := Suc (close_calls s) \<rparr>
              else if msg_type parsedMessage = Some SUBSCRIPTION_TYPE
              then s \<lparr> ledger_state :=
                         processSubscriptions cachedPairs user' account
                           (openPerpetualPositions parsedMessage) (ledger_state s) \<rparr>
              else if msg_type parsedMessage = Some DATA_TYPE
              then s \<lparr> ledger_state :=
                         updatePosition cachedPairs user' account
                           (perpetualPositions parsedMessage) (fills parsedMessage) (ledger_state s) \<rparr>
              else s))"

definition on_error :: "session \<Rightarrow> session" where
  \<comment> \<open>\<^verbatim>\<open>websocket.on("error", ...)\<close>\<close>
  "on_error s = s \<lparr> reconnects_scheduled := Suc (reconnects_scheduled s) \<rparr>"

definition on_close :: "session \<Rightarrow> session" where
  \<comment> \<open>\<^verbatim>\<open>websocket.on("close", ...)\<close>\<close>
  "on_close s =
     (if shouldReconnect s then s \<lparr> reconnects_scheduled := Suc (reconnects_scheduled s) \<rparr> else s)"

definition heartbeat_timeout :: "session \<Rightarrow> session" where
  \<comment> \<open>the timer of \<^verbatim>\<open>resetHeartbeatTimer\<close> fires: \<^verbatim>\<open>websocket.close()\<close>\<close>
  "heartbeat_timeout s = s \<lparr> close_calls := Suc (close_calls s) \<rparr>"

definition closeConnection :: "session \<Rightarrow> session" where
  "closeConnection s = s \<lparr> shouldReconnect := False, close_calls := Suc (close_calls s) \<rparr>"

section \<open>The persistence pipeline (\<^verbatim>\<open>services/processor.ts\<close>, \<^verbatim>\<open>services/crons.ts\<close>,
  \<^verbatim>\<open>utils/database.ts\<close>)\<close>

subsection \<open>\<^verbatim>\<open>convertToDecimal\<close>\<close>

text \<open>
  \<^verbatim>\<open>parseUnits\<close> belongs to the ethers library (version 5, imported from
  \<^verbatim>\<open>ethers/lib/utils\<close>), which is not part of the source tree. It is modelled as that
  version defines it: the string must consist of an optional \<^verbatim>\<open>-\<close>, digits and points;
  it is split at the point into a whole part and a fraction (at most one point, and not
  a point alone); the zeros that end the fraction are dropped, and a fraction that is
  still longer than \<open>decimals\<close> digits is an error; the result is the integer
  \<open>whole * 10 ^ decimals + fraction\<close> padded to \<open>decimals\<close> digits, with the sign.
  \<^verbatim>\<open>BigNumber.prototype.toString\<close> prints that integer in decimal digits.
\<close>

fun String_split :: "char \<Rightarrow> string \<Rightarrow> string list" where
  \<comment> \<open>\<^verbatim>\<open>String.prototype.split\<close> with a separator of one character\<close>
  "String_split c [] = [[]]"
| "String_split c (x # xs) =
     (if x = c then [] # String_split c xs
      else (let parts = String_split c xs in (x # hd parts) # tl parts))"

fun Array_join :: "string \<Rightarrow> string list \<Rightarrow> string" where
  \<comment> \<open>\<^verbatim>\<open>Array.prototype.join\<close>\<close>
  "Array_join sep [] = []"
| "Array_join sep [p] = p"
| "Array_join sep (p # q # ps) = p @ sep @ Array_join sep (q # ps)"

definition parseUnits :: "string \<Rightarrow> nat \<Rightarrow> error + int" where
  "parseUnits value' decimals =
     (if value' = [] \<or> \<not> list_all (\<lambda>c. is_digit c \<or> c = CHR ''.'')
           (case value' of c # r \<Rightarrow> if c = CHR ''-'' then r else value' | [] \<Rightarrow> value')
         \<or> value' = ''-''
      then Inl InvalidArgument
      else (let negative = (hd value' = CHR ''-'');
                value' = (if negative then tl value' else value');
                comps = String_split CHR ''.'' value'
            in if value' = ''.'' \<or> length comps > 2 then Inl InvalidArgument
               else (let whole = (if hd comps = [] then ''0'' else hd comps);
                         fraction = (if length comps < 2 \<or> comps ! 1 = [] then ''0'' else comps ! 1);
                         fraction = rev (dropWhile (\<lambda>c. c = CHR ''0'') (rev fraction))
                     in if length fraction > decimals then Inl InvalidArgument
                        else (let fraction = fraction @ replicate (decimals - length fraction) CHR ''0'';
                                  wei = digits_value whole * 10 ^ decimals + digits_value fraction
                              in Inr (if negative then - wei else wei)))))"

definition BigNumber_toString :: "int \<Rightarrow> string" where
  "BigNumber_toString n = (if n < 0 then ''-'' @ digits_of (- n) else digits_of n)"

text \<open>
  \<^verbatim>\<open>convertToDecimal\<close> (\<^verbatim>\<open>utils/functions.ts\<close>) works on the text of the amount: it cuts
  what follows the first point down to \<open>decimals\<close> characters and hands the text to
  \<^verbatim>\<open>parseUnits\<close>. \<^verbatim>\<open>null\<close> stays \<^verbatim>\<open>null\<close>.
\<close>

definition convertToDecimal :: "string option \<Rightarrow> nat \<Rightarrow> error + string option" where
  "convertToDecimal amount decimals =
     (case amount of
        None \<Rightarrow> Inr None
      | Some amount \<Rightarrow>
          (let parts = String_split CHR ''.'' amount;
               parts = (if length parts > 1 \<and> length (parts ! 1) > decimals
                        then parts[1 := take decimals (parts ! 1)] else parts);
               adjustedAmount = Array_join ''.'' parts
           in and_then (parseUnits adjustedAmount decimals) (\<lambda>wei. Inr (Some (BigNumber_toString wei)))))"

definition AMOUNT_DECIMALS :: nat where
  "AMOUNT_DECIMALS = 6"

definition PRICE_DECIMALS :: nat where
  "PRICE_DECIMALS = 18"

subsection \<open>Dates\<close>

text \<open>
  \<^verbatim>\<open>convertToSqlDate\<close> and \<^verbatim>\<open>getSqlDate\<close> (\<^verbatim>\<open>utils/database.ts\<close>) go through the \<^verbatim>\<open>Date\<close> of
  JavaScript, whose parsing of a string is left to the implementation and whose clock
  is the environment's. The environment gives \<^verbatim>\<open>new Date(s).toISOString()\<close> for a string
  \<open>s\<close> (\<open>None\<close> when the date is invalid and \<^verbatim>\<open>toISOString\<close> throws a \<^verbatim>\<open>RangeError\<close>) and
  \<^verbatim>\<open>new Date().toISOString()\<close> at the moment of the call. The two functions keep the
  first 19 characters and put a space for the first \<^verbatim>\<open>T\<close>.
\<close>

record environment =
  Date_toISOString :: "string \<Rightarrow> string option"
  now_toISOString :: string

fun replace_first :: "char \<Rightarrow> char \<Rightarrow> string \<Rightarrow> string" where
  \<comment> \<open>\<^verbatim>\<open>String.prototype.replace\<close> with patterns of one character\<close>
  "replace_first a b [] = []"
| "replace_first a b (c # cs) = (if c = a then b # cs else c # replace_first a b cs)"

definition convertToSqlDate :: "environment \<Rightarrow> string \<Rightarrow> error + string" where
  "convertToSqlDate env dateString =
     (case Date_toISOString env dateString of
        None \<Rightarrow> Inl RangeError
      | Some isoString \<Rightarrow> Inr (replace_first CHR ''T'' CHR '' '' (take 19 isoString)))"

definition getSqlDate :: "environment \<Rightarrow> string" where
  \<comment> \<open>called without an argument\<close>
  "getSqlDate env = replace_first CHR ''T'' CHR '' '' (take 19 (now_toISOString env))"

subsection \<open>The processor queue\<close>

text \<open>The array that the processor queue pushes onto \<^verbatim>\<open>TO_PROCESS\<close>, element by element.\<close>

record db_tuple =
  t_user :: nat
  t_trade_id :: string
  t_trader_address :: "string option"
  t_token :: string
  t_bias :: nat
  t_size :: "string option"
  t_sum_open :: "string option"
  t_limit_price :: "string option"
  t_exit_price :: "string option"
  t_start_date :: string
  t_end_date :: "string option"
  t_funding :: "string option"
  t_realised_pnl :: "string option"
  t_pnl :: "string option"
  t_is_profitable :: nat
  t_timestamp :: string
  t_type :: string

text \<open>
  The worker of the queue receives the reference that \<^verbatim>\<open>aggregatePositions\<close> pushed and
  reads the fields of the object in the order of the array literal, with an \<^verbatim>\<open>await\<close>
  after each conversion. The ledger engine runs between these stages and can assign to
  the same object, so the worker sees the object as it is at each stage: \<open>seen k\<close> is
  the object at stage \<open>k\<close>, the stages being the stretches between two \<^verbatim>\<open>await\<close>s, eleven
  in all. A conversion that throws ends in \<^verbatim>\<open>callback(error)\<close>: nothing is pushed.
\<close>

definition to_tuple :: "environment \<Rightarrow> (nat \<Rightarrow> trader_position) \<Rightarrow> error + db_tuple" where
  "to_tuple env seen =
     (let user' = user (seen 0);
          trade_id' = trade_id (seen 0);
          trader_address' = trader_address (seen 0);
          token' = token (seen 0);
          bias' = bias (seen 0)
      in and_then (convertToDecimal (Some (size_t (seen 0))) AMOUNT_DECIMALS) (\<lambda>size'.
         and_then (convertToDecimal (Some (sum_open (seen 1))) AMOUNT_DECIMALS) (\<lambda>sum_open'.
         and_then (convertToDecimal (Some (limit_price (seen 2))) PRICE_DECIMALS) (\<lambda>limit_price'.
         and_then (convertToDecimal (exit_price (seen 3)) PRICE_DECIMALS) (\<lambda>exit_price'.
         and_then (convertToSqlDate env (start_date (seen 4))) (\<lambda>start_date'.
         and_then (case end_date (seen 5) of
                     None \<Rightarrow> Inr None
                   | Some d \<Rightarrow> and_then (convertToSqlDate env d) (\<lambda>d'. Inr (Some d'))) (\<lambda>end_date'.
         and_then (convertToDecimal (Some (funding (seen 6))) AMOUNT_DECIMALS) (\<lambda>funding'.
         and_then (convertToDecimal (Some (realised_pnl (seen 7))) AMOUNT_DECIMALS) (\<lambda>realised_pnl'.
         and_then (convertToDecimal (Some (pnl (seen 8))) AMOUNT_DECIMALS) (\<lambda>pnl'.
         Inr \<lparr> t_user = user',
               t_trade_id = trade_id',
               t_trader_address = trader_address',
               t_token = token',
               t_bias = bias',
               t_size = size',
               t_sum_open = sum_open',
               t_limit_price = limit_price',
               t_exit_price = exit_price',
               t_start_date = start_date',
               t_end_date = end_date',
               t_funding = funding',
               t_realised_pnl = realised_pnl',
               t_pnl = pnl',
               t_is_profitable = is_profitable (seen 9),
               t_timestamp = getSqlDate env,
               t_type = type (seen 10) \<rparr>))))))))))"

definition processorQueue_worker ::
  "environment \<Rightarrow> (nat \<Rightarrow> trader_position list) \<Rightarrow> nat \<Rightarrow> db_tuple list \<Rightarrow> db_tuple list" where
  \<comment> \<open>\<open>rows k\<close> are the row objects at stage \<open>k\<close>, \<open>task\<close> is the reference in the queue\<close>
  "processorQueue_worker env rows task TO_PROCESS' =
     (case to_tuple env (\<lambda>k. rows k ! task) of
        Inl e \<Rightarrow> TO_PROCESS'
      | Inr t \<Rightarrow> TO_PROCESS' @ [t])"

subsection \<open>The table and the upsert\<close>

text \<open>
  A row of \<^verbatim>\<open>trades_dex\<close> (\<^verbatim>\<open>schema.sql\<close>, without the surrogate \<^verbatim>\<open>id\<close>). The table has
  a unique key on \<^verbatim>\<open>trade_id\<close>, so it is a map from the trade identifier. The column
  \<^verbatim>\<open>sum_close\<close> is declared \<^verbatim>\<open>DEFAULT NULL\<close>.
\<close>

record db_row =
  c_user :: nat
  c_trade_id :: string
  c_trader_address :: "string option"
  c_token :: string
  c_bias :: nat
  c_size :: "string option"
  c_sum_open :: "string option"
  c_sum_close :: "string option"
  c_limit_price :: "string option"
  c_exit_price :: "string option"
  c_start_date :: string
  c_end_date :: "string option"
  c_funding :: "string option"
  c_realised_pnl :: "string option"
  c_pnl :: "string option"
  c_is_profitable :: nat
  c_timestamp :: string

definition insert_on_duplicate_key_update ::
  "db_tuple \<Rightarrow> (string \<rightharpoonup> db_row) \<Rightarrow> (string \<rightharpoonup> db_row)" where
  \<comment> \<open>the statement of \<^verbatim>\<open>processPositions\<close> for one tuple: the sixteen listed columns on
      insert, the eleven assignments on a duplicate key\<close>
  "insert_on_duplicate_key_update t table =
     (case table (t_trade_id t) of
        None \<Rightarrow>
          table (t_trade_id t \<mapsto>
            \<lparr> c_user = t_user t,
              c_trade_id = t_trade_id t,
              c_trader_address = t_trader_address t,
              c_token = t_token t,
              c_bias = t_bias t,
              c_size = t_size t,
              c_sum_open = t_sum_open t,
              c_sum_close = None,
              c_limit_price = t_limit_price t,
              c_exit_price = t_exit_price t,
              c_start_date = t_start_date t,
              c_end_date = t_end_date t,
              c_funding = t_funding t,
              c_realised_pnl = t_realised_pnl t,
              c_pnl = t_pnl t,
              c_is_profitable = t_is_profitable t,
              c_timestamp = t_timestamp t \<rparr>)
      | Some row \<Rightarrow>
          table (t_trade_id t \<mapsto>
            row \<lparr> c_size := t_size t,
                  c_sum_open := t_sum_open t,
                  c_limit_price := t_limit_price t,
                  c_exit_price := t_exit_price t,
                  c_start_date := t_start_date t,
                  c_end_date := t_end_date t,
                  c_funding := t_funding t,
                  c_realised_pnl := t_realised_pnl t,
                  c_pnl := t_pnl t,
                  c_is_profitable := t_is_profitable t,
                  c_timestamp := t_timestamp t \<rparr>))"

subsection \<open>\<^verbatim>\<open>sqlBatchQuery\<close>\<close>

text \<open>
  The database is the environment: \<open>pool_query n\<close> is what the \<open>n\<close>-th call of
  \<^verbatim>\<open>pool.query\<close> of one batch does, success or the \<^verbatim>\<open>code\<close> of the error it throws.
  A run records what it returned, how many queries it sent and the delays it slept.
\<close>

datatype query_outcome = Succeeds | Fails string

datatype batch_result = Results | Thrown string | Undefined_result

record batch_run =
  result :: batch_result
  attempts :: nat
  delays :: "nat list"

definition MAX_RETRIES :: nat where
  "MAX_RETRIES = 5"

definition INITIAL_RETRY_DELAY :: nat where
  "INITIAL_RETRY_DELAY = 1000"

definition ER_LOCK_DEADLOCK :: string where
  "ER_LOCK_DEADLOCK = ''ER_LOCK_DEADLOCK''"

function sqlBatchQuery_loop :: "(nat \<Rightarrow> query_outcome) \<Rightarrow> nat \<Rightarrow> nat \<Rightarrow> nat list \<Rightarrow> batch_run" where
  "sqlBatchQuery_loop pool_query attempt delayMs slept =
     (if attempt \<le> MAX_RETRIES then
        (case pool_query attempt of
           Succeeds \<Rightarrow> \<lparr> result = Results, attempts = attempt, delays = slept \<rparr>
         | Fails code \<Rightarrow>
             if code = ER_LOCK_DEADLOCK \<and> attempt < MAX_RETRIES
             then sqlBatchQuery_loop pool_query (attempt + 1) (delayMs * 2) (slept @ [delayMs])
             else \<lparr> result = Thrown code, attempts = attempt, delays = slept \<rparr>)
      else \<lparr> result = Undefined_result, attempts = attempt - 1, delays = slept \<rparr>)"
  by pat_completeness auto
termination
  by (relation "measure (\<lambda>(pool_query, attempt, delayMs, slept). Suc MAX_RETRIES - attempt)") auto

declare sqlBatchQuery_loop.simps [simp del]

definition sqlBatchQuery :: "(nat \<Rightarrow> query_outcome) \<Rightarrow> batch_run" where
  "sqlBatchQuery pool_query = sqlBatchQuery_loop pool_query 1 INITIAL_RETRY_DELAY []"

subsection \<open>\<^verbatim>\<open>processPositions\<close> and the \<^verbatim>\<open>insertTrades\<close> tick\<close>

record pipeline =
  TO_PROCESS :: "db_tuple list"
  is_processing :: bool
  trades_dex :: "string \<rightharpoonup> db_row"
  notifications :: "string list"

definition processPositions ::
  "(nat \<Rightarrow> query_outcome) \<Rightarrow> db_tuple list \<Rightarrow> pipeline \<Rightarrow> batch_run option \<times> pipeline" where
  \<comment> \<open>\<open>None\<close>: the early return on an empty batch. The tag is sliced off every tuple; the
      statement takes effect in the attempt that succeeds\<close>
  "processPositions pool_query positions st =
     (if positions = [] then (None, st)
      else (let st = st \<lparr> notifications := notifications st @
                         map t_trade_id
                           (filter (\<lambda>t. t_type t = ''open'' \<or> t_type t = ''close'') positions) \<rparr>;
                run = sqlBatchQuery pool_query
            in (Some run,
                if result run = Results
                then st \<lparr> trades_dex := fold insert_on_duplicate_key_update positions (trades_dex st) \<rparr>
                else st)))"

definition insertTrades :: "(nat \<Rightarrow> query_outcome) \<Rightarrow> pipeline \<Rightarrow> batch_run option \<times> pipeline" where
  "insertTrades pool_query st =
     (if is_processing st then (None, st)
      else (let to_process = TO_PROCESS st;
                st = st \<lparr> is_processing := True, TO_PROCESS := [] \<rparr>;
                (run, st) = processPositions pool_query to_process st
            in (run, st \<lparr> is_processing := False \<rparr>)))"

section \<open>Vocabulary of the statements\<close>

definition reads_as :: "string \<Rightarrow> rat \<Rightarrow> bool" where
  \<comment> \<open>the string is a numeral that \<^verbatim>\<open>new Decimal\<close> reads as the number \<open>x\<close>\<close>
  "reads_as s x = (Decimal s = Inr (Fin x))"

definition is_update_of :: "string list \<Rightarrow> ledger \<Rightarrow> position \<Rightarrow> bool" where
  \<comment> \<open>the position falls under case 2 of \<^verbatim>\<open>updatePosition\<close>: a tracked instrument with a
      lane, reported \<^verbatim>\<open>OPEN\<close> in the lane's direction\<close>
  "is_update_of cachedPairs st position =
     (isTrackedSymbol cachedPairs (remove_dashes (market position)) \<and>
      (case Map_get (TRADER_POSITIONS st) (remove_dashes (market position)) of
         None \<Rightarrow> False
       | Some trader_position \<Rightarrow>
           status position = OPEN_STATUS \<and>
           bias (objects st ! trader_position) = (if side position = ''LONG'' then 1 else 0)))"

section \<open>Example inputs\<close>

text \<open>The inputs at which the theorems below are instantiated.\<close>

definition example_fill :: fill where
  "example_fill = \<lparr> fill_createdAtHeight = ''4242'', fill_createdAt = ''2024-03-31T09:08:12.000Z'' \<rparr>"

definition example_long_lane :: trader_position where
  \<comment> \<open>a long lane of size 10 at entry price 100, funding 0, nothing closed yet\<close>
  "example_long_lane =
     \<lparr> user = 7, trade_id = ''dydx1abc-BTCUSD-LONG-4000'', trader_address = Some ''dydx1abc'',
       token = ''BTCUSD'', bias = 1, size_t = ''10'', sum_open = ''10'', sum_close = ''0'',
       limit_price = ''100'', exit_price = None, start_date = ''2024-03-30T00:00:00.000Z'',
       end_date = None, funding = ''0'', realised_pnl = ''0'', pnl = ''0'', is_profitable = 0,
       type = ''open'' \<rparr>"

definition example_short_lane :: trader_position where
  \<comment> \<open>a short lane of size 5 at entry price 50\<close>
  "example_short_lane =
     \<lparr> user = 7, trade_id = ''dydx1abc-BTCUSD-SHORT-4000'', trader_address = Some ''dydx1abc'',
       token = ''BTCUSD'', bias = 0, size_t = ''-5'', sum_open = ''5'', sum_close = ''0'',
       limit_price = ''50'', exit_price = None, start_date = ''2024-03-30T00:00:00.000Z'',
       end_date = None, funding = ''0'', realised_pnl = ''0'', pnl = ''0'', is_profitable = 0,
       type = ''open'' \<rparr>"

definition example_partly_closed_lane :: trader_position where
  \<comment> \<open>a long lane at entry price 100 of which 2 units were sold at 120, with funding 3\<close>
  "example_partly_closed_lane =
     \<lparr> user = 7, trade_id = ''dydx1abc-BTCUSD-LONG-4000'', trader_address = Some ''dydx1abc'',
       token = ''BTCUSD'', bias = 1, size_t = ''8'', sum_open = ''10'', sum_close = ''2'',
       limit_price = ''100'', exit_price = Some ''120'',
       start_date = ''2024-03-30T00:00:00.000Z'', end_date = None, funding = ''3'',
       realised_pnl = ''40'', pnl = ''0'', is_profitable = 0, type = ''update'' \<rparr>"

definition example_flip :: position where
  \<comment> \<open>the exchange reports the instrument short at entry price 110; ten units of the
      former long side are closed: \<open>sumOpen - |size| - sumClose = 10\<close>\<close>
  "example_flip =
     \<lparr> market = ''BTC-USD'', side = ''SHORT'', status = ''OPEN'', size_p = ''-5'', sumOpen = ''15'',
       sumClose = ''0'', entryPrice = ''110'', exitPrice = None, netFunding = ''0'',
       createdAtHeight = ''4242'', createdAt = ''2024-03-31T09:08:12.000Z'' \<rparr>"

definition example_flip_rest :: position where
  \<comment> \<open>the instrument reported short at entry price 110, with eight units moved\<close>
  "example_flip_rest =
     \<lparr> market = ''BTC-USD'', side = ''SHORT'', status = ''OPEN'', size_p = ''-5'', sumOpen = ''13'',
       sumClose = ''0'', entryPrice = ''110'', exitPrice = None, netFunding = ''0'',
       createdAtHeight = ''4242'', createdAt = ''2024-03-31T09:08:12.000Z'' \<rparr>"

definition example_flip_long :: position where
  \<comment> \<open>the instrument reported long at entry price 40, with five units of the former short
      side closed\<close>
  "example_flip_long =
     \<lparr> market = ''BTC-USD'', side = ''LONG'', status = ''OPEN'', size_p = ''3'', sumOpen = ''8'',
       sumClose = ''0'', entryPrice = ''40'', exitPrice = None, netFunding = ''0'',
       createdAtHeight = ''4242'', createdAt = ''2024-03-31T09:08:12.000Z'' \<rparr>"

definition example_large_flip :: position where
  \<comment> \<open>the instrument reported long at entry price 40, with \<open>2 ^ 53 + 1\<close> units of the
      former short side closed\<close>
  "example_large_flip =
     \<lparr> market = ''BTC-USD'', side = ''LONG'', status = ''OPEN'', size_p = ''1'',
       sumOpen = ''9007199254740994'', sumClose = ''0'', entryPrice = ''40'', exitPrice = None,
       netFunding = ''0'', createdAtHeight = ''4242'', createdAt = ''2024-03-31T09:08:12.000Z'' \<rparr>"

definition example_close :: position where
  \<comment> \<open>the short position reported closed: 5 units, entry price 50, exit price 40\<close>
  "example_close =
     \<lparr> market = ''BTC-USD'', side = ''SHORT'', status = ''CLOSED'', size_p = ''0'', sumOpen = ''5'',
       sumClose = ''5'', entryPrice = ''50'', exitPrice = Some ''40'', netFunding = ''0'',
       createdAtHeight = ''4000'', createdAt = ''2024-03-30T00:00:00.000Z'' \<rparr>"

definition example_large_close :: position where
  \<comment> \<open>a short position reported closed: \<open>2 ^ 53 + 1\<close> units, entry price 50, exit price 40\<close>
  "example_large_close =
     \<lparr> market = ''BTC-USD'', side = ''SHORT'', status = ''CLOSED'', size_p = ''0'',
       sumOpen = ''9007199254740993'', sumClose = ''9007199254740993'', entryPrice = ''50'',
       exitPrice = Some ''40'', netFunding = ''0'',
       createdAtHeight = ''4000'', createdAt = ''2024-03-30T00:00:00.000Z'' \<rparr>"

definition example_breakeven :: position where
  \<comment> \<open>a long position closed at its entry price\<close>
  "example_breakeven =
     \<lparr> market = ''BTC-USD'', side = ''LONG'', status = ''CLOSED'', size_p = ''0'', sumOpen = ''10'',
       sumClose = ''10'', entryPrice = ''100'', exitPrice = Some ''100'', netFunding = ''0'',
       createdAtHeight = ''4000'', createdAt = ''2024-03-30T00:00:00.000Z'' \<rparr>"

definition example_open :: position where
  \<comment> \<open>a long position of size 10 at entry price 100\<close>
  "example_open =
     \<lparr> market = ''BTC-USD'', side = ''LONG'', status = ''OPEN'', size_p = ''10'', sumOpen = ''10'',
       sumClose = ''0'', entryPrice = ''100'', exitPrice = None, netFunding = ''0'',
       createdAtHeight = ''4000'', createdAt = ''2024-03-30T00:00:00.000Z'' \<rparr>"

definition example_update :: position where
  \<comment> \<open>the long position reported again, still open and long, now of size 12\<close>
  "example_update =
     \<lparr> market = ''BTC-USD'', side = ''LONG'', status = ''OPEN'', size_p = ''12'', sumOpen = ''12'',
       sumClose = ''0'', entryPrice = ''101'', exitPrice = None, netFunding = ''0'',
       createdAtHeight = ''4000'', createdAt = ''2024-03-30T00:00:00.000Z'' \<rparr>"

definition example_partial_exit :: position where
  \<comment> \<open>a long position of which one unit, bought at 0.1, has been sold at 0.3\<close>
  "example_partial_exit =
     \<lparr> market = ''BTC-USD'', side = ''LONG'', status = ''OPEN'', size_p = ''9'', sumOpen = ''10'',
       sumClose = ''1'', entryPrice = ''0.1'', exitPrice = Some ''0.3'', netFunding = ''0'',
       createdAtHeight = ''4000'', createdAt = ''2024-03-30T00:00:00.000Z'' \<rparr>"

definition example_ledger :: "trader_position \<Rightarrow> ledger" where
  \<comment> \<open>one row object, which is the lane of \<^verbatim>\<open>BTCUSD\<close>, and an empty processor queue\<close>
  "example_ledger lane =
     \<lparr> objects = [lane], TRADER_POSITIONS = [(''BTCUSD'', 0)], processorQueue = [] \<rparr>"

definition empty_ledger :: ledger where
  "empty_ledger = \<lparr> objects = [], TRADER_POSITIONS = [], processorQueue = [] \<rparr>"

definition example_pool_query :: "nat \<Rightarrow> query_outcome" where
  \<comment> \<open>the first two queries of the batch meet a deadlock, the third succeeds\<close>
  "example_pool_query n = (if n < 3 then Fails ER_LOCK_DEADLOCK else Succeeds)"

definition example_deadlocked_pool_query :: "nat \<Rightarrow> query_outcome" where
  \<comment> \<open>every query of the batch meets a deadlock\<close>
  "example_deadlocked_pool_query n = Fails ER_LOCK_DEADLOCK"

definition example_late_pool_query :: "nat \<Rightarrow> query_outcome" where
  \<comment> \<open>the first five queries of the batch meet a deadlock, a sixth would succeed\<close>
  "example_late_pool_query n = (if n < 6 then Fails ER_LOCK_DEADLOCK else Succeeds)"

definition example_row :: trader_position where
  \<comment> \<open>a row of which 3 units have been closed at 52.5\<close>
  "example_row =
     \<lparr> user = 7, trade_id = ''dydx1abc-BTCUSD-LONG-4000'', trader_address = Some ''dydx1abc'',
       token = ''BTCUSD'', bias = 1, size_t = ''7'', sum_open = ''10'', sum_close = ''3'',
       limit_price = ''100'', exit_price = Some ''52.5'',
       start_date = ''2024-03-30T00:00:00.000Z'', end_date = None, funding = ''-0.0000015'',
       realised_pnl = ''-142.5'', pnl = ''0'', is_profitable = 0, type = ''update'' \<rparr>"

definition example_environment :: environment where
  \<comment> \<open>\<^verbatim>\<open>Date\<close> at the timestamps of the examples, which are in the format of
      \<^verbatim>\<open>toISOString\<close>, and a clock\<close>
  "example_environment =
     \<lparr> Date_toISOString =
         (\<lambda>s. if s = ''2024-03-30T00:00:00.000Z'' \<or> s = ''2024-03-31T09:08:12.000Z'' then Some s
              else None),
       now_toISOString = ''2024-03-31T09:08:20.417Z'' \<rparr>"

definition example_tuple :: db_tuple where
  \<comment> \<open>the tuple of \<open>example_row\<close>\<close>
  "example_tuple =
     \<lparr> t_user = 7, t_trade_id = ''dydx1abc-BTCUSD-LONG-4000'', t_trader_address = Some ''dydx1abc'',
       t_token = ''BTCUSD'', t_bias = 1, t_size = Some ''7000000'', t_sum_open = Some ''10000000'',
       t_limit_price = Some ''100000000000000000000'', t_exit_price = Some ''52500000000000000000'',
       t_start_date = ''2024-03-30 00:00:00'', t_end_date = None, t_funding = Some ''-1'',
       t_realised_pnl = Some ''-142500000'', t_pnl = Some ''0'', t_is_profitable = 0,
       t_timestamp = ''2024-03-31 09:08:20'', t_type = ''update'' \<rparr>"

definition example_pipeline :: pipeline where
  \<comment> \<open>an empty table and one pending tuple\<close>
  "example_pipeline =
     \<lparr> TO_PROCESS = [example_tuple], is_processing = False, trades_dex = Map.empty,
       notifications = [] \<rparr>"

definition example_frame :: parsed_message where
  \<comment> \<open>a snapshot frame that names no subaccount: no \<^verbatim>\<open>id\<close> and no \<^verbatim>\<open>account\<close>\<close>
  "example_frame =
     \<lparr> msg_id = None, msg_account = Absent, msg_type = Some ''subscribed'',
       openPerpetualPositions = Some [(''BTC-USD'', example_flip)],
       perpetualPositions = None, fills = None \<rparr>"

section \<open>Properties of the ledger engine\<close>

subsection \<open>Auxiliary facts\<close>

lemma and_then_eq_Inr:
  "and_then r f = Inr y \<longleftrightarrow> (\<exists>x. r = Inr x \<and> f x = Inr y)"
  by (cases r) (simp_all add: and_then_def)

lemma and_then_Inr [simp]: "and_then (Inr x) f = f x"
  by (simp add: and_then_def)

lemma and_then_Inl [simp]: "and_then (Inl e) f = Inl e"
  by (simp add: and_then_def)

lemma status_closed_not_open: "status p = CLOSED_STATUS \<Longrightarrow> status p \<noteq> OPEN_STATUS"
  by (simp add: OPEN_STATUS_def CLOSED_STATUS_def)

lemma status_open_not_closed: "status p = OPEN_STATUS \<Longrightarrow> status p \<noteq> CLOSED_STATUS"
  by (simp add: OPEN_STATUS_def CLOSED_STATUS_def)

lemma Map_set_same: "Map_get m k = Some v \<Longrightarrow> Map_set k v m = m"
  by (induction m) (auto simp: Map_get_def split: if_splits)

lemma createNewPosition_state:
  "\<exists>r. createNewPosition u p a bh ca ty st =
         (length (objects st),
          \<lparr> objects = objects st @ [r], TRADER_POSITIONS = TRADER_POSITIONS st,
            processorQueue = processorQueue st @ [length (objects st)] \<rparr>) \<and>
       is_profitable r = 0 \<and> type r = ty \<and> pnl r = ''0'' \<and>
       bias r = (if side p = ''LONG'' then 1 else 0) \<and> size_t r = size_p p \<and>
       trader_address r = a \<and> token r = remove_dashes (market p) \<and>
       realised_pnl r = compute_realised_pnl p"
  by (cases st) (simp add: createNewPosition_def new_object_def aggregatePositions_def Let_def)

lemma updateExistingPosition_state:
  "\<exists>r. updateExistingPosition ref p st =
         (ref,
          \<lparr> objects = (objects st)[ref := r], TRADER_POSITIONS = TRADER_POSITIONS st,
            processorQueue = processorQueue st @ [ref] \<rparr>) \<and>
       is_profitable r = 0 \<and> type r = ''update'' \<and> pnl r = ''0'' \<and> size_t r = size_p p \<and>
       bias r = bias (objects st ! ref) \<and> realised_pnl r = compute_realised_pnl p"
  by (cases st) (fastforce simp: updateExistingPosition_def assign_def aggregatePositions_def Let_def)

lemma flipPosition_state:
  assumes "flipPosition ref p e st = Inr st'"
  shows "\<exists>r x. st' = \<lparr> objects = (objects st)[ref := r], TRADER_POSITIONS = TRADER_POSITIONS st,
                       processorQueue = processorQueue st @ [ref] \<rparr> \<and>
               type r = ''close'' \<and> pnl r = Decimal_toString x \<and>
               is_profitable r = (if Decimal_greaterThan x (Fin 0) then 1 else 0)"
  using assms unfolding flipPosition_def Let_def and_then_eq_Inr
  by (cases st) (fastforce simp: assign_def aggregatePositions_def)

lemma closePosition_state:
  assumes "closePosition ref p e st = Inr st'"
  shows "\<exists>r x. st' = \<lparr> objects = (objects st)[ref := r], TRADER_POSITIONS = TRADER_POSITIONS st,
                       processorQueue = processorQueue st @ [ref] \<rparr> \<and>
               type r = ''close'' \<and> pnl r = Decimal_toString x \<and>
               is_profitable r = (if Decimal_greaterThan x (Fin 0) then 1 else 0)"
  using assms unfolding closePosition_def Let_def and_then_eq_Inr
  by (cases st) (fastforce simp: assign_def aggregatePositions_def)

subsection \<open>Updates without fills\<close>

lemma updatePosition_step_dropped:
  assumes "\<not> is_update_of cachedPairs st p"
  shows "(case updatePosition_step cachedPairs u a [] p st of Inl e \<Rightarrow> st | Inr st' \<Rightarrow> st') = st"
proof (cases "isTrackedSymbol cachedPairs (remove_dashes (market p))")
  case False
  then show ?thesis
    by (simp add: updatePosition_step_def Let_def)
next
  case True
  show ?thesis
  proof (cases "Map_get (TRADER_POSITIONS st) (remove_dashes (market p))")
    case None
    with True show ?thesis
      by (simp add: updatePosition_step_def Let_def first_fill_def)
  next
    case (Some lane)
    with True assms have
      "\<not> (status p = OPEN_STATUS \<and> bias (objects st ! lane) = (if side p = ''LONG'' then 1 else 0))"
      by (simp add: is_update_of_def)
    with True Some show ?thesis
      by (simp add: updatePosition_step_def Let_def first_fill_def)
  qed
qed

lemma updatePosition_loop_dropped:
  "list_all (\<lambda>p. \<not> is_update_of cachedPairs st p) ps \<Longrightarrow>
   updatePosition_loop cachedPairs u a [] ps st = st"
  by (induction ps) (simp_all add: updatePosition_step_dropped)

text \<open>
  Claim C4 says that an update whose fill list is absent or empty, or whose position
  list is absent, is dropped entirely. The guards of \<^verbatim>\<open>updatePosition\<close> are \<^verbatim>\<open>!fills\<close> and
  \<^verbatim>\<open>!positions\<close>, and an empty array is not falsy: with \<^verbatim>\<open>fills = []\<close> the loop runs. A
  position that reaches case 1, 3 or 4 then reads \<^verbatim>\<open>fills[0].createdAt\<close>, throws and is
  skipped, but case 2 never reads the fills. At the input below the lane is long and
  open, the update reports it long and open with size 12, and the fill list is empty:
  the lane object, of size 10 before, has the size 12 and the tag \<^verbatim>\<open>update\<close>, and it is
  pushed onto the processor queue.
\<close>

theorem empty_fills_counterexample:
  "updatePosition [''BTCUSD''] 7 (Some ''dydx1abc'') (Some [example_update]) (Some [])
     (example_ledger example_long_lane) =
   \<lparr> objects =
       [example_long_lane
          \<lparr> size_t := ''12'', sum_open := ''12'', limit_price := ''101'', type := ''update'' \<rparr>],
     TRADER_POSITIONS = [(''BTCUSD'', 0)], processorQueue = [0] \<rparr> \<and>
   size_t example_long_lane = ''10'' \<and>
   processorQueue (example_ledger example_long_lane) = []"
  by code_simp

text \<open>
  Claim C4 as amended. The update is dropped entirely, with no row emitted and the
  lane map and the row objects unchanged, when the fill list is absent, when the
  position list is absent, and when the fill list is empty and no position of the
  update falls under case 2. A position under case 2 is applied with an empty fill
  list as with any other: the object of its lane is updated in place, with the
  reported size and the tag \<^verbatim>\<open>update\<close>, and is pushed onto the processor queue.
\<close>

theorem absent_or_empty_fills:
  "updatePosition cachedPairs u a positions None st = st \<and>
   updatePosition cachedPairs u a None fills' st = st \<and>
   (list_all (\<lambda>p. \<not> is_update_of cachedPairs st p) ps \<longrightarrow>
      updatePosition cachedPairs u a (Some ps) (Some []) st = st) \<and>
   (is_update_of cachedPairs st p \<longrightarrow>
      (\<exists>lane r. Map_get (TRADER_POSITIONS st) (remove_dashes (market p)) = Some lane \<and>
         updatePosition cachedPairs u a (Some [p]) (Some []) st =
           \<lparr> objects = (objects st)[lane := r], TRADER_POSITIONS = TRADER_POSITIONS st,
             processorQueue = processorQueue st @ [lane] \<rparr> \<and>
         type r = ''update'' \<and> size_t r = size_p p))"
proof (intro conjI impI)
  show "updatePosition cachedPairs u a positions None st = st"
    by (simp add: updatePosition_def)
  show "updatePosition cachedPairs u a None fills' st = st"
    by (simp add: updatePosition_def split: option.splits)
  show "updatePosition cachedPairs u a (Some ps) (Some []) st = st"
    if "list_all (\<lambda>p. \<not> is_update_of cachedPairs st p) ps"
    using updatePosition_loop_dropped [OF that] by (simp add: updatePosition_def)
  show "\<exists>lane r. Map_get (TRADER_POSITIONS st) (remove_dashes (market p)) = Some lane \<and>
         updatePosition cachedPairs u a (Some [p]) (Some []) st =
           \<lparr> objects = (objects st)[lane := r], TRADER_POSITIONS = TRADER_POSITIONS st,
             processorQueue = processorQueue st @ [lane] \<rparr> \<and>
         type r = ''update'' \<and> size_t r = size_p p"
    if upd: "is_update_of cachedPairs st p"
  proof -
    from upd obtain lane where tracked: "isTrackedSymbol cachedPairs (remove_dashes (market p))"
      and lane: "Map_get (TRADER_POSITIONS st) (remove_dashes (market p)) = Some lane"
      and case2: "status p = OPEN_STATUS \<and>
                  bias (objects st ! lane) = (if side p = ''LONG'' then 1 else 0)"
      by (auto simp: is_update_of_def split: option.splits)
    from updateExistingPosition_state [of lane p st] obtain r where
      upd_row: "updateExistingPosition lane p st =
         (lane,
          \<lparr> objects = (objects st)[lane := r], TRADER_POSITIONS = TRADER_POSITIONS st,
            processorQueue = processorQueue st @ [lane] \<rparr>)"
      and r: "type r = ''update''" "size_t r = size_p p"
      by blast
    have "updatePosition_step cachedPairs u a [] p st =
            Inr \<lparr> objects = (objects st)[lane := r], TRADER_POSITIONS = TRADER_POSITIONS st,
                  processorQueue = processorQueue st @ [lane] \<rparr>"
      using tracked lane case2
      by (simp add: updatePosition_step_def Let_def upd_row Map_set_same)
    then have "updatePosition cachedPairs u a (Some [p]) (Some []) st =
           \<lparr> objects = (objects st)[lane := r], TRADER_POSITIONS = TRADER_POSITIONS st,
             processorQueue = processorQueue st @ [lane] \<rparr>"
      by (simp add: updatePosition_def)
    with lane r show ?thesis
      by blast
  qed
qed

text \<open>
  With an empty fill list, a flip and a close of the long lane are dropped, and an
  update of it is applied.
\<close>

theorem absent_or_empty_fills_witness:
  "list_all (\<lambda>p. \<not> is_update_of [''BTCUSD''] (example_ledger example_long_lane) p)
     [example_flip, example_close] \<and>
   updatePosition [''BTCUSD''] 7 (Some ''dydx1abc'') (Some [example_flip, example_close]) (Some [])
     (example_ledger example_long_lane) = example_ledger example_long_lane \<and>
   is_update_of [''BTCUSD''] (example_ledger example_long_lane) example_update \<and>
   (\<exists>lane r. Map_get (TRADER_POSITIONS (example_ledger example_long_lane))
                (remove_dashes (market example_update)) = Some lane \<and>
         updatePosition [''BTCUSD''] 7 (Some ''dydx1abc'') (Some [example_update]) (Some [])
           (example_ledger example_long_lane) =
           \<lparr> objects = (objects (example_ledger example_long_lane))[lane := r],
             TRADER_POSITIONS = TRADER_POSITIONS (example_ledger example_long_lane),
             processorQueue = processorQueue (example_ledger example_long_lane) @ [lane] \<rparr> \<and>
         type r = ''update'' \<and> size_t r = size_p example_update)"
proof -
  have dropped: "list_all (\<lambda>p. \<not> is_update_of [''BTCUSD''] (example_ledger example_long_lane) p)
     [example_flip, example_close]"
    by code_simp
  have upd: "is_update_of [''BTCUSD''] (example_ledger example_long_lane) example_update"
    by code_simp
  note inst = absent_or_empty_fills [of "[''BTCUSD'']" 7 "Some ''dydx1abc''" None
      "example_ledger example_long_lane" None "[example_flip, example_close]" example_update]
  from inst dropped upd show ?thesis by blast
qed

subsection \<open>One lane per instrument\<close>
















subsection \<open>Full close\<close>

text \<open>
  Claim C3 says that the PnL of every full close is the signed size times (exit price -
  entry price), the sign flipped for a short lane. \<^verbatim>\<open>closePosition\<close> flips the sign with
  \<^verbatim>\<open>new Decimal(-position.sumClose)\<close>: the unary minus turns the string into a JavaScript
  Number, which holds 53 significant bits. For a short position closing
  \<open>2 ^ 53 + 1 = 9007199254740993\<close> units, entry price 50, exit price 40, the row has the
  size \<^verbatim>\<open>-9007199254740992\<close> and the PnL \<^verbatim>\<open>90071992547409920\<close>, where the signed size
  times the price difference is \<open>90071992547409930\<close>. The long branch,
  \<^verbatim>\<open>new Decimal(position.sumClose)\<close>, is exact.
\<close>

theorem close_negates_on_a_Number:
  "updatePosition_step [''BTCUSD''] 7 (Some ''dydx1abc'') [example_fill] example_large_close
     (example_ledger example_short_lane) =
   Inr \<lparr> objects =
           [example_short_lane
              \<lparr> size_t := ''-9007199254740992'', limit_price := ''50'', exit_price := Some ''40'',
                end_date := Some ''2024-03-31T09:08:12.000Z'', realised_pnl := ''0'',
                pnl := ''90071992547409920'', is_profitable := 1, type := ''close'' \<rparr>],
         TRADER_POSITIONS = [], processorQueue = [0] \<rparr> \<and>
   side example_large_close = ''SHORT'' \<and>
   reads_as (sumClose example_large_close) 9007199254740993 \<and>
   reads_as (entryPrice example_large_close) 50 \<and>
   exitPrice example_large_close = Some ''40'' \<and>
   Decimal_toString (Fin (- 9007199254740993 * (40 - 50))) = ''90071992547409930''"
  by code_simp

subsection \<open>Flip\<close>

text \<open>
  Claim C2 says that the PnL of the closing row of every flip is the signed closing size
  times (average exit price - entry price) plus funding. For a short lane
  \<^verbatim>\<open>flipPosition\<close> takes the signed size from \<^verbatim>\<open>new Decimal(-adjusted_size)\<close>: the unary
  minus turns the \<^verbatim>\<open>Decimal\<close> into a JavaScript Number, which holds 53 significant bits.
  For a short lane at entry price 50 that flips to long at 40 with
  \<open>2 ^ 53 + 1 = 9007199254740993\<close> units moved, the closing row has the exit price 40, the
  size \<^verbatim>\<open>-9007199254740992\<close> and the PnL \<^verbatim>\<open>90071992547409920\<close>, where the signed closing
  size times the price difference is \<open>90071992547409930\<close>. The branch of a long lane,
  \<^verbatim>\<open>new Decimal(adjusted_size)\<close>, is exact.
\<close>

theorem flip_negates_on_a_Number:
  "updatePosition_step [''BTCUSD''] 7 (Some ''dydx1abc'') [example_fill] example_large_flip
     (example_ledger example_short_lane) =
   Inr \<lparr> objects =
           [example_short_lane
              \<lparr> size_t := ''-9007199254740992'', exit_price := Some ''40'',
                end_date := Some ''2024-03-31T09:08:12.000Z'', realised_pnl := ''0'',
                pnl := ''90071992547409920'', is_profitable := 1, type := ''close'' \<rparr>,
            \<lparr> user = 7, trade_id = ''dydx1abc-BTCUSD-LONG-4242'', trader_address = Some ''dydx1abc'',
              token = ''BTCUSD'', bias = 1, size_t = ''1'', sum_open = ''9007199254740994'',
              sum_close = ''0'', limit_price = ''40'', exit_price = None,
              start_date = ''2024-03-31T09:08:12.000Z'', end_date = None, funding = ''0'',
              realised_pnl = ''0'', pnl = ''0'', is_profitable = 0, type = ''open'' \<rparr>],
         TRADER_POSITIONS = [(''BTCUSD'', 1)], processorQueue = [0, 1] \<rparr> \<and>
   bias example_short_lane = 0 \<and>
   reads_as (sum_close example_short_lane) 0 \<and>
   reads_as (limit_price example_short_lane) 50 \<and>
   reads_as (funding example_short_lane) 0 \<and>
   reads_as (sumOpen example_large_flip) 9007199254740994 \<and>
   reads_as (size_p example_large_flip) 1 \<and>
   reads_as (sumClose example_large_flip) 0 \<and>
   reads_as (entryPrice example_large_flip) 40 \<and>
   Decimal_toString (Fin (- (0 + (9007199254740994 - \<bar>1\<bar> - 0)) * (40 - 50) + 0)) =
     ''90071992547409930''"
  by code_simp

subsection \<open>The realised PnL of open and update rows\<close>

lemma example_partial_exit_realised_pnl:
  "compute_realised_pnl example_partial_exit = ''0.19999999999999998''"
  by code_simp

text \<open>
  Claim C1 says that the stored \<^verbatim>\<open>realised_pnl\<close> is the exact decimal value
  \<open>sumClose * (exitPrice - entryPrice)\<close>. \<^verbatim>\<open>createNewPosition\<close> and
  \<^verbatim>\<open>updateExistingPosition\<close> compute it with
  \<^verbatim>\<open>position.sumClose * (Number(position.exitPrice) - Number(position.entryPrice))\<close>, on
  JavaScript Numbers, and store \<^verbatim>\<open>realised_pnl.toString()\<close>. For one unit bought at 0.1
  and sold at 0.3 the exact value is \<open>1 / 5\<close>, which prints as \<^verbatim>\<open>0.2\<close>. The two functions
  store \<^verbatim>\<open>0.19999999999999998\<close>, the numeral of the Number \<open>7205759403792793 / 2 ^ 55\<close>,
  which is the binary64 result of \<^verbatim>\<open>0.3 - 0.1\<close>.
\<close>

theorem realised_pnl_is_binary_floating_point:
  "reads_as (sumClose example_partial_exit) 1 \<and>
   reads_as (entryPrice example_partial_exit) (1 / 10) \<and>
   exitPrice example_partial_exit = Some ''0.3'' \<and>
   reads_as ''0.3'' (3 / 10) \<and>
   Decimal_toString (Fin (1 * (3 / 10 - 1 / 10))) = ''0.2'' \<and>
   map realised_pnl (objects (snd
     (createNewPosition 7 example_partial_exit (Some ''dydx1abc'') None None ''open'' empty_ledger))) =
     [''0.19999999999999998''] \<and>
   map realised_pnl (objects (snd
     (updateExistingPosition 0 example_partial_exit (example_ledger example_long_lane)))) =
     [''0.19999999999999998''] \<and>
   StringToNumber ''0.19999999999999998'' = Fin (7205759403792793 / 36028797018963968)"
proof (intro conjI)
  show "reads_as (sumClose example_partial_exit) 1"
    and "reads_as (entryPrice example_partial_exit) (1 / 10)"
    and "exitPrice example_partial_exit = Some ''0.3''"
    and "reads_as ''0.3'' (3 / 10)"
    and "Decimal_toString (Fin (1 * (3 / 10 - 1 / 10))) = ''0.2''"
    and "StringToNumber ''0.19999999999999998'' = Fin (7205759403792793 / 36028797018963968)"
    by code_simp+
  show "map realised_pnl (objects (snd
     (createNewPosition 7 example_partial_exit (Some ''dydx1abc'') None None ''open'' empty_ledger))) =
     [''0.19999999999999998'']"
    by (simp add: createNewPosition_def new_object_def aggregatePositions_def Let_def
        empty_ledger_def example_partial_exit_realised_pnl)
  show "map realised_pnl (objects (snd
     (updateExistingPosition 0 example_partial_exit (example_ledger example_long_lane)))) =
     [''0.19999999999999998'']"
    by (simp add: updateExistingPosition_def assign_def aggregatePositions_def Let_def
        example_ledger_def example_partial_exit_realised_pnl)
qed

subsection \<open>The profitability flag\<close>

text \<open>
  Claim C10. The rows of \<^verbatim>\<open>createNewPosition\<close> and \<^verbatim>\<open>updateExistingPosition\<close> carry
  \<^verbatim>\<open>is_profitable = 0\<close> whatever their realised PnL. \<^verbatim>\<open>flipPosition\<close> and \<^verbatim>\<open>closePosition\<close>
  store the PnL that they computed, a \<^verbatim>\<open>Decimal\<close> \<open>x\<close>, as \<^verbatim>\<open>x.toString()\<close>, and the flag 1
  when \<open>x\<close> is greater than zero (\<^verbatim>\<open>pnl.greaterThan(0)\<close>) and 0 otherwise; for a PnL that
  is a number \<open>y\<close> the flag is 1 exactly when \<open>0 < y\<close>, so a PnL of exactly zero is not
  profitable.
\<close>

theorem profitability_flag:
  "(\<exists>r. objects (snd (createNewPosition u p a bh ca ty st)) = objects st @ [r] \<and>
        is_profitable r = 0) \<and>
   (\<exists>r. objects (snd (updateExistingPosition lane p st)) = (objects st)[lane := r] \<and>
        is_profitable r = 0) \<and>
   (\<forall>st'. flipPosition lane p e st = Inr st' \<longrightarrow>
      (\<exists>r x. objects st' = (objects st)[lane := r] \<and> pnl r = Decimal_toString x \<and>
             is_profitable r = (if Decimal_greaterThan x (Fin 0) then 1 else 0) \<and>
             (\<forall>y. x = Fin y \<longrightarrow> is_profitable r = (if 0 < y then 1 else 0)))) \<and>
   (\<forall>st'. closePosition lane p e st = Inr st' \<longrightarrow>
      (\<exists>r x. objects st' = (objects st)[lane := r] \<and> pnl r = Decimal_toString x \<and>
             is_profitable r = (if Decimal_greaterThan x (Fin 0) then 1 else 0) \<and>
             (\<forall>y. x = Fin y \<longrightarrow> is_profitable r = (if 0 < y then 1 else 0))))"
proof (intro conjI allI impI)
  from createNewPosition_state [of u p a bh ca ty st]
  show "\<exists>r. objects (snd (createNewPosition u p a bh ca ty st)) = objects st @ [r] \<and>
        is_profitable r = 0"
    by auto
  from updateExistingPosition_state [of lane p st]
  show "\<exists>r. objects (snd (updateExistingPosition lane p st)) = (objects st)[lane := r] \<and>
        is_profitable r = 0"
    by auto
next
  fix st' assume "flipPosition lane p e st = Inr st'"
  from flipPosition_state [OF this] obtain r x where
    "objects st' = (objects st)[lane := r]" "pnl r = Decimal_toString x"
    "is_profitable r = (if Decimal_greaterThan x (Fin 0) then 1 else 0)"
    by auto
  then show "\<exists>r x. objects st' = (objects st)[lane := r] \<and> pnl r = Decimal_toString x \<and>
             is_profitable r = (if Decimal_greaterThan x (Fin 0) then 1 else 0) \<and>
             (\<forall>y. x = Fin y \<longrightarrow> is_profitable r = (if 0 < y then 1 else 0))"
    by (intro exI [of _ r] exI [of _ x]) simp
next
  fix st' assume "closePosition lane p e st = Inr st'"
  from closePosition_state [OF this] obtain r x where
    "objects st' = (objects st)[lane := r]" "pnl r = Decimal_toString x"
    "is_profitable r = (if Decimal_greaterThan x (Fin 0) then 1 else 0)"
    by auto
  then show "\<exists>r x. objects st' = (objects st)[lane := r] \<and> pnl r = Decimal_toString x \<and>
             is_profitable r = (if Decimal_greaterThan x (Fin 0) then 1 else 0) \<and>
             (\<forall>y. x = Fin y \<longrightarrow> is_profitable r = (if 0 < y then 1 else 0))"
    by (intro exI [of _ r] exI [of _ x]) simp
qed

text \<open>
  A long position closed at its entry price: the PnL is 0 and the flag is 0. The long
  lane flipped at 110: the PnL is 100 and the flag is 1.
\<close>

theorem profitability_flag_witness:
  "closePosition 0 example_breakeven ''2024-03-31T09:08:12.000Z'' (example_ledger example_long_lane) =
     Inr \<lparr> objects =
             [example_long_lane
                \<lparr> size_t := ''10'', exit_price := Some ''100'',
                  end_date := Some ''2024-03-31T09:08:12.000Z'', pnl := ''0'', is_profitable := 0,
                  type := ''close'' \<rparr>],
           TRADER_POSITIONS = [(''BTCUSD'', 0)], processorQueue = [0] \<rparr> \<and>
   flipPosition 0 example_flip ''2024-03-31T09:08:12.000Z'' (example_ledger example_long_lane) =
     Inr \<lparr> objects =
             [example_long_lane
                \<lparr> size_t := ''10'', exit_price := Some ''110'',
                  end_date := Some ''2024-03-31T09:08:12.000Z'', pnl := ''100'', is_profitable := 1,
                  type := ''close'' \<rparr>],
           TRADER_POSITIONS = [(''BTCUSD'', 0)], processorQueue = [0] \<rparr> \<and>
   (\<exists>x. ''0'' = Decimal_toString x \<and> (0 :: nat) = (if Decimal_greaterThan x (Fin 0) then 1 else 0)) \<and>
   (\<exists>x. ''100'' = Decimal_toString x \<and> (1 :: nat) = (if Decimal_greaterThan x (Fin 0) then 1 else 0))"
proof -
  let ?closed = "example_long_lane
                \<lparr> size_t := ''10'', exit_price := Some ''100'',
                  end_date := Some ''2024-03-31T09:08:12.000Z'', pnl := ''0'', is_profitable := 0,
                  type := ''close'' \<rparr>"
  let ?flipped = "example_long_lane
                \<lparr> size_t := ''10'', exit_price := Some ''110'',
                  end_date := Some ''2024-03-31T09:08:12.000Z'', pnl := ''100'', is_profitable := 1,
                  type := ''close'' \<rparr>"
  have close: "closePosition 0 example_breakeven ''2024-03-31T09:08:12.000Z''
      (example_ledger example_long_lane) =
     Inr \<lparr> objects = [?closed], TRADER_POSITIONS = [(''BTCUSD'', 0)], processorQueue = [0] \<rparr>"
    by code_simp
  have flip: "flipPosition 0 example_flip ''2024-03-31T09:08:12.000Z''
      (example_ledger example_long_lane) =
     Inr \<lparr> objects = [?flipped], TRADER_POSITIONS = [(''BTCUSD'', 0)], processorQueue = [0] \<rparr>"
    by code_simp
  note flag = profitability_flag [where st = "example_ledger example_long_lane" and lane = 0
      and e = "''2024-03-31T09:08:12.000Z''"]
  note on_flip = flag [THEN conjunct2, THEN conjunct2, THEN conjunct1, rule_format]
  note on_close = flag [THEN conjunct2, THEN conjunct2, THEN conjunct2, rule_format]
  from on_close [OF close] obtain r x where
    r: "objects \<lparr> objects = [?closed], TRADER_POSITIONS = [(''BTCUSD'', 0)], processorQueue = [0] \<rparr> =
          (objects (example_ledger example_long_lane))[0 := r]"
    and x: "pnl r = Decimal_toString x"
      "is_profitable r = (if Decimal_greaterThan x (Fin 0) then 1 else 0)"
    by blast
  from r have "r = ?closed"
    by (simp add: example_ledger_def)
  with x have zero: "\<exists>x. ''0'' = Decimal_toString x \<and>
      (0 :: nat) = (if Decimal_greaterThan x (Fin 0) then 1 else 0)"
    by (intro exI [of _ x]) simp
  from on_flip [OF flip] obtain r' x' where
    r': "objects \<lparr> objects = [?flipped], TRADER_POSITIONS = [(''BTCUSD'', 0)], processorQueue = [0] \<rparr> =
          (objects (example_ledger example_long_lane))[0 := r']"
    and x': "pnl r' = Decimal_toString x'"
      "is_profitable r' = (if Decimal_greaterThan x' (Fin 0) then 1 else 0)"
    by blast
  from r' have "r' = ?flipped"
    by (simp add: example_ledger_def)
  with x' have hundred: "\<exists>x. ''100'' = Decimal_toString x \<and>
      (1 :: nat) = (if Decimal_greaterThan x (Fin 0) then 1 else 0)"
    by (intro exI [of _ x']) simp
  from close flip zero hundred show ?thesis
    by (intro conjI)
qed

section \<open>Properties of the persistence pipeline\<close>

subsection \<open>Deadlock retry\<close>

lemma sqlBatchQuery_loop_spec:
  assumes "1 \<le> a" and "a \<le> MAX_RETRIES"
  shows "a \<le> attempts (sqlBatchQuery_loop pq a d s) \<and>
         attempts (sqlBatchQuery_loop pq a d s) \<le> MAX_RETRIES \<and>
         (\<forall>k. a \<le> k \<and> k < attempts (sqlBatchQuery_loop pq a d s) \<longrightarrow> pq k = Fails ER_LOCK_DEADLOCK) \<and>
         delays (sqlBatchQuery_loop pq a d s) =
           s @ map (\<lambda>k. d * 2 ^ k) [0..<attempts (sqlBatchQuery_loop pq a d s) - a] \<and>
         result (sqlBatchQuery_loop pq a d s) =
           (case pq (attempts (sqlBatchQuery_loop pq a d s)) of
              Succeeds \<Rightarrow> Results | Fails code \<Rightarrow> Thrown code) \<and>
         (result (sqlBatchQuery_loop pq a d s) = Thrown ER_LOCK_DEADLOCK \<longrightarrow>
            attempts (sqlBatchQuery_loop pq a d s) = MAX_RETRIES)"
  using assms
proof (induction pq a d s rule: sqlBatchQuery_loop.induct)
  case (1 pq a d s)
  show ?case
  proof (cases "pq a")
    case Succeeds
    have "sqlBatchQuery_loop pq a d s = \<lparr> result = Results, attempts = a, delays = s \<rparr>"
      using Succeeds "1.prems" by (subst sqlBatchQuery_loop.simps) simp
    then have r: "result (sqlBatchQuery_loop pq a d s) = Results"
      "attempts (sqlBatchQuery_loop pq a d s) = a" "delays (sqlBatchQuery_loop pq a d s) = s"
      by simp_all
    have none: "\<forall>k. a \<le> k \<and> k < a \<longrightarrow> pq k = Fails ER_LOCK_DEADLOCK"
      using leD by blast
    show ?thesis
      unfolding r using Succeeds "1.prems" none by simp
  next
    case (Fails code)
    show ?thesis
    proof (cases "code = ER_LOCK_DEADLOCK \<and> a < MAX_RETRIES")
      case False
      have "sqlBatchQuery_loop pq a d s = \<lparr> result = Thrown code, attempts = a, delays = s \<rparr>"
        using Fails False "1.prems" by (subst sqlBatchQuery_loop.simps) auto
      then have r: "result (sqlBatchQuery_loop pq a d s) = Thrown code"
        "attempts (sqlBatchQuery_loop pq a d s) = a" "delays (sqlBatchQuery_loop pq a d s) = s"
        by simp_all
      have last: "code = ER_LOCK_DEADLOCK \<longrightarrow> a = MAX_RETRIES"
        using False "1.prems" by auto
      have none: "\<forall>k. a \<le> k \<and> k < a \<longrightarrow> pq k = Fails ER_LOCK_DEADLOCK"
        using leD by blast
      show ?thesis
        unfolding r using Fails "1.prems" none last by simp
    next
      case True
      let ?r = "sqlBatchQuery_loop pq (a + 1) (d * 2) (s @ [d])"
      have eq: "sqlBatchQuery_loop pq a d s = ?r"
        using Fails True "1.prems" by (subst sqlBatchQuery_loop.simps) simp
      have p1: "a \<le> MAX_RETRIES" and p2: "1 \<le> a + 1" and p3: "a + 1 \<le> MAX_RETRIES"
        using True by simp_all
      have ih: "a + 1 \<le> attempts ?r \<and> attempts ?r \<le> MAX_RETRIES \<and>
         (\<forall>k. a + 1 \<le> k \<and> k < attempts ?r \<longrightarrow> pq k = Fails ER_LOCK_DEADLOCK) \<and>
         delays ?r = (s @ [d]) @ map (\<lambda>k. d * 2 * 2 ^ k) [0..<attempts ?r - (a + 1)] \<and>
         result ?r = (case pq (attempts ?r) of Succeeds \<Rightarrow> Results | Fails code \<Rightarrow> Thrown code) \<and>
         (result ?r = Thrown ER_LOCK_DEADLOCK \<longrightarrow> attempts ?r = MAX_RETRIES)"
        by (rule "1.IH" [OF p1 Fails True p2 p3])
      have ks: "\<forall>k. a \<le> k \<and> k < attempts ?r \<longrightarrow> pq k = Fails ER_LOCK_DEADLOCK"
      proof (intro allI impI)
        fix k assume k: "a \<le> k \<and> k < attempts ?r"
        show "pq k = Fails ER_LOCK_DEADLOCK"
        proof (cases "k = a")
          case True
          with Fails \<open>code = ER_LOCK_DEADLOCK \<and> a < MAX_RETRIES\<close> show ?thesis by simp
        next
          case False
          with k have "a + 1 \<le> k \<and> k < attempts ?r" by simp
          moreover from ih
          have "\<forall>k. a + 1 \<le> k \<and> k < attempts ?r \<longrightarrow> pq k = Fails ER_LOCK_DEADLOCK"
            by blast
          ultimately show ?thesis by blast
        qed
      qed
      from ih have "a + 1 \<le> attempts ?r"
        by blast
      then have n: "attempts ?r - a = Suc (attempts ?r - (a + 1))"
        by simp
      have ds: "s @ map (\<lambda>k. d * 2 ^ k) [0..<attempts ?r - a] =
                (s @ [d]) @ map (\<lambda>k. d * 2 * 2 ^ k) [0..<attempts ?r - (a + 1)]"
        unfolding n by (simp add: map_upt_Suc del: upt_Suc)
      from ih have d1: "delays ?r = (s @ [d]) @ map (\<lambda>k. d * 2 * 2 ^ k) [0..<attempts ?r - (a + 1)]"
        by blast
      have dl: "delays ?r = s @ map (\<lambda>k. d * 2 ^ k) [0..<attempts ?r - a]"
        by (rule trans [OF d1 ds [symmetric]])
      from \<open>a + 1 \<le> attempts ?r\<close> have "a \<le> attempts ?r"
        by simp
      with ih ks dl show ?thesis
        unfolding eq by blast
    qed
  qed
qed


lemma sqlBatchQuery_spec:
  "1 \<le> attempts (sqlBatchQuery pq) \<and>
   attempts (sqlBatchQuery pq) \<le> MAX_RETRIES \<and>
   (\<forall>k. 1 \<le> k \<and> k < attempts (sqlBatchQuery pq) \<longrightarrow> pq k = Fails ER_LOCK_DEADLOCK) \<and>
   delays (sqlBatchQuery pq) =
     map (\<lambda>k. INITIAL_RETRY_DELAY * 2 ^ k) [0..<attempts (sqlBatchQuery pq) - 1] \<and>
   result (sqlBatchQuery pq) =
     (case pq (attempts (sqlBatchQuery pq)) of Succeeds \<Rightarrow> Results | Fails code \<Rightarrow> Thrown code) \<and>
   (result (sqlBatchQuery pq) = Thrown ER_LOCK_DEADLOCK \<longrightarrow>
      attempts (sqlBatchQuery pq) = MAX_RETRIES)"
proof -
  have "(1 :: nat) \<le> 1" and "1 \<le> MAX_RETRIES"
    by (simp_all add: MAX_RETRIES_def)
  from sqlBatchQuery_loop_spec [OF this, of pq INITIAL_RETRY_DELAY "[]"]
  show ?thesis
    unfolding sqlBatchQuery_def append_Nil .
qed

lemma sqlBatchQuery_attempts:
  assumes n: "1 \<le> n" "n \<le> MAX_RETRIES"
    and before: "\<forall>k. 1 \<le> k \<and> k < n \<longrightarrow> pq k = Fails ER_LOCK_DEADLOCK"
    and stop: "pq n \<noteq> Fails ER_LOCK_DEADLOCK \<or> n = MAX_RETRIES"
  shows "attempts (sqlBatchQuery pq) = n"
proof -
  let ?m = "attempts (sqlBatchQuery pq)"
  note spec = sqlBatchQuery_spec [of pq]
  from spec have m: "1 \<le> ?m" "?m \<le> MAX_RETRIES"
    and mbefore: "\<forall>k. 1 \<le> k \<and> k < ?m \<longrightarrow> pq k = Fails ER_LOCK_DEADLOCK"
    and res: "result (sqlBatchQuery pq) =
       (case pq ?m of Succeeds \<Rightarrow> Results | Fails code \<Rightarrow> Thrown code)"
    and ex: "result (sqlBatchQuery pq) = Thrown ER_LOCK_DEADLOCK \<longrightarrow> ?m = MAX_RETRIES"
    by blast+
  have "\<not> n < ?m"
  proof
    assume lt: "n < ?m"
    with n mbefore have "pq n = Fails ER_LOCK_DEADLOCK" by blast
    with stop have "n = MAX_RETRIES" by blast
    with lt m show False by simp
  qed
  moreover have "\<not> ?m < n"
  proof
    assume lt: "?m < n"
    with m before have "pq ?m = Fails ER_LOCK_DEADLOCK" by blast
    with res have "result (sqlBatchQuery pq) = Thrown ER_LOCK_DEADLOCK" by simp
    with ex have "?m = MAX_RETRIES" by blast
    with lt n show False by simp
  qed
  ultimately show ?thesis by simp
qed

lemma insertTrades_idle:
  assumes "\<not> is_processing st" and "TO_PROCESS st \<noteq> []"
  shows "fst (insertTrades pq st) = Some (sqlBatchQuery pq) \<and>
         TO_PROCESS (snd (insertTrades pq st)) = [] \<and>
         \<not> is_processing (snd (insertTrades pq st)) \<and>
         trades_dex (snd (insertTrades pq st)) =
           (if result (sqlBatchQuery pq) = Results
            then fold insert_on_duplicate_key_update (TO_PROCESS st) (trades_dex st)
            else trades_dex st)"
  using assms by (simp add: insertTrades_def processPositions_def Let_def)

text \<open>
  Claim C6. A batch write sends at most \<^verbatim>\<open>MAX_RETRIES = 5\<close> queries. Every query before
  the last met \<^verbatim>\<open>ER_LOCK_DEADLOCK\<close> and was followed by a delay, 1000 ms at first and
  doubled each time, so a write is retried at most four times, after 1, 2, 4 and 8
  seconds. The write ends with the first query that succeeds, or that fails with
  another error, or with the fifth query whatever it does; a failure of that last
  query is thrown to the caller. When the first two queries meet a deadlock and the
  third succeeds, the write returns the results after exactly 3 queries. An
  \<^verbatim>\<open>insertTrades\<close> tick takes the pending batch and leaves the pending list empty
  whatever the outcome: the table receives the batch when the write returns, and
  stays as it was when the write throws; the batch is not queued again.
\<close>

theorem deadlock_retry:
  "1 \<le> attempts (sqlBatchQuery pq) \<and>
   attempts (sqlBatchQuery pq) \<le> MAX_RETRIES \<and>
   (\<forall>k. 1 \<le> k \<and> k < attempts (sqlBatchQuery pq) \<longrightarrow> pq k = Fails ER_LOCK_DEADLOCK) \<and>
   delays (sqlBatchQuery pq) =
     map (\<lambda>k. INITIAL_RETRY_DELAY * 2 ^ k) [0..<attempts (sqlBatchQuery pq) - 1] \<and>
   result (sqlBatchQuery pq) =
     (case pq (attempts (sqlBatchQuery pq)) of Succeeds \<Rightarrow> Results | Fails code \<Rightarrow> Thrown code) \<and>
   (result (sqlBatchQuery pq) = Thrown ER_LOCK_DEADLOCK \<longrightarrow>
      attempts (sqlBatchQuery pq) = MAX_RETRIES) \<and>
   length (delays (sqlBatchQuery pq)) = attempts (sqlBatchQuery pq) - 1 \<and>
   (\<forall>n. 1 \<le> n \<and> n \<le> MAX_RETRIES \<and>
        (\<forall>k. 1 \<le> k \<and> k < n \<longrightarrow> pq k = Fails ER_LOCK_DEADLOCK) \<and>
        (pq n \<noteq> Fails ER_LOCK_DEADLOCK \<or> n = MAX_RETRIES) \<longrightarrow>
      attempts (sqlBatchQuery pq) = n) \<and>
   (pq 1 = Fails ER_LOCK_DEADLOCK \<and> pq 2 = Fails ER_LOCK_DEADLOCK \<and> pq 3 = Succeeds \<longrightarrow>
      sqlBatchQuery pq = \<lparr> result = Results, attempts = 3, delays = [1000, 2000] \<rparr>) \<and>
   (\<not> is_processing st \<and> TO_PROCESS st \<noteq> [] \<longrightarrow>
      fst (insertTrades pq st) = Some (sqlBatchQuery pq) \<and>
      TO_PROCESS (snd (insertTrades pq st)) = [] \<and>
      \<not> is_processing (snd (insertTrades pq st)) \<and>
      trades_dex (snd (insertTrades pq st)) =
        (if result (sqlBatchQuery pq) = Results
         then fold insert_on_duplicate_key_update (TO_PROCESS st) (trades_dex st)
         else trades_dex st))"
proof -
  have third: "sqlBatchQuery pq = \<lparr> result = Results, attempts = 3, delays = [1000, 2000] \<rparr>"
    if h: "pq 1 = Fails ER_LOCK_DEADLOCK \<and> pq 2 = Fails ER_LOCK_DEADLOCK \<and> pq 3 = Succeeds"
  proof -
    have before: "\<forall>k. 1 \<le> k \<and> k < 3 \<longrightarrow> pq k = Fails ER_LOCK_DEADLOCK"
    proof (intro allI impI)
      fix k :: nat assume "1 \<le> k \<and> k < 3"
      then have "k = 1 \<or> k = 2" by auto
      with h show "pq k = Fails ER_LOCK_DEADLOCK" by auto
    qed
    have att: "attempts (sqlBatchQuery pq) = 3"
      using h by (intro sqlBatchQuery_attempts before) (simp_all add: MAX_RETRIES_def)
    from sqlBatchQuery_spec [of pq]
    have "delays (sqlBatchQuery pq) =
            map (\<lambda>k. INITIAL_RETRY_DELAY * 2 ^ k) [0..<attempts (sqlBatchQuery pq) - 1]"
      and "result (sqlBatchQuery pq) =
            (case pq (attempts (sqlBatchQuery pq)) of Succeeds \<Rightarrow> Results | Fails code \<Rightarrow> Thrown code)"
      by blast+
    then have "delays (sqlBatchQuery pq) = map (\<lambda>k. INITIAL_RETRY_DELAY * 2 ^ k) [0..<3 - 1]"
      and "result (sqlBatchQuery pq) = (case pq 3 of Succeeds \<Rightarrow> Results | Fails code \<Rightarrow> Thrown code)"
      unfolding att by blast+
    then have "delays (sqlBatchQuery pq) = [1000, 2000]" and "result (sqlBatchQuery pq) = Results"
      using h by (simp_all add: INITIAL_RETRY_DELAY_def numeral_2_eq_2)
    with att show ?thesis
      by (cases "sqlBatchQuery pq") simp
  qed
  from sqlBatchQuery_spec [of pq]
  have "delays (sqlBatchQuery pq) =
          map (\<lambda>k. INITIAL_RETRY_DELAY * 2 ^ k) [0..<attempts (sqlBatchQuery pq) - 1]"
    by blast
  then have "length (delays (sqlBatchQuery pq)) =
          length (map (\<lambda>k. INITIAL_RETRY_DELAY * 2 ^ k) [0..<attempts (sqlBatchQuery pq) - 1])"
    by (rule arg_cong)
  then have retries: "length (delays (sqlBatchQuery pq)) = attempts (sqlBatchQuery pq) - 1"
    by simp
  from sqlBatchQuery_spec [of pq] sqlBatchQuery_attempts [of _ pq] third insertTrades_idle [of st pq]
    retries
  show ?thesis
    by blast
qed


text \<open>
  Two deadlocks and a success: 3 queries, delays of 1000 and 2000 ms, the tuple
  written. Deadlocks throughout: 5 queries, delays of 1000, 2000, 4000 and 8000 ms, the
  error thrown, the pending list empty and the table untouched.
\<close>

theorem deadlock_retry_witness:
  "example_pool_query 1 = Fails ER_LOCK_DEADLOCK \<and>
   example_pool_query 2 = Fails ER_LOCK_DEADLOCK \<and>
   example_pool_query 3 = Succeeds \<and>
   sqlBatchQuery example_pool_query = \<lparr> result = Results, attempts = 3, delays = [1000, 2000] \<rparr> \<and>
   \<not> is_processing example_pipeline \<and>
   TO_PROCESS example_pipeline = [example_tuple] \<and>
   TO_PROCESS (snd (insertTrades example_pool_query example_pipeline)) = [] \<and>
   trades_dex (snd (insertTrades example_pool_query example_pipeline)) =
     fold insert_on_duplicate_key_update [example_tuple] Map.empty \<and>
   attempts (sqlBatchQuery example_deadlocked_pool_query) = 5 \<and>
   result (sqlBatchQuery example_deadlocked_pool_query) = Thrown ER_LOCK_DEADLOCK \<and>
   delays (sqlBatchQuery example_deadlocked_pool_query) = [1000, 2000, 4000, 8000] \<and>
   TO_PROCESS (snd (insertTrades example_deadlocked_pool_query example_pipeline)) = [] \<and>
   trades_dex (snd (insertTrades example_deadlocked_pool_query example_pipeline)) = Map.empty"
proof -
  have q: "example_pool_query 1 = Fails ER_LOCK_DEADLOCK"
    "example_pool_query 2 = Fails ER_LOCK_DEADLOCK" "example_pool_query 3 = Succeeds"
    by (simp_all add: example_pool_query_def)
  have idle: "\<not> is_processing example_pipeline" "TO_PROCESS example_pipeline \<noteq> []"
    and pending: "TO_PROCESS example_pipeline = [example_tuple]"
    and table: "trades_dex example_pipeline = Map.empty"
    by (simp_all add: example_pipeline_def)
  note third = deadlock_retry [of example_pool_query example_pipeline]
  from third q have run: "sqlBatchQuery example_pool_query =
      \<lparr> result = Results, attempts = 3, delays = [1000, 2000] \<rparr>"
    by blast
  then have ok: "result (sqlBatchQuery example_pool_query) = Results"
    by simp
  from third idle have
    "TO_PROCESS (snd (insertTrades example_pool_query example_pipeline)) = []"
    "trades_dex (snd (insertTrades example_pool_query example_pipeline)) =
       (if result (sqlBatchQuery example_pool_query) = Results
        then fold insert_on_duplicate_key_update (TO_PROCESS example_pipeline)
               (trades_dex example_pipeline)
        else trades_dex example_pipeline)"
    by blast+
  then have written: "TO_PROCESS (snd (insertTrades example_pool_query example_pipeline)) = []"
    "trades_dex (snd (insertTrades example_pool_query example_pipeline)) =
       fold insert_on_duplicate_key_update [example_tuple] Map.empty"
    unfolding ok pending table by simp_all
  note all = deadlock_retry [of example_deadlocked_pool_query example_pipeline]
  have dead: "\<forall>k. 1 \<le> k \<and> k < 5 \<longrightarrow> example_deadlocked_pool_query k = Fails ER_LOCK_DEADLOCK"
    by (simp add: example_deadlocked_pool_query_def)
  have five: "1 \<le> (5 :: nat) \<and> 5 \<le> MAX_RETRIES \<and>
        (\<forall>k. 1 \<le> k \<and> k < 5 \<longrightarrow> example_deadlocked_pool_query k = Fails ER_LOCK_DEADLOCK) \<and>
        (example_deadlocked_pool_query 5 \<noteq> Fails ER_LOCK_DEADLOCK \<or> 5 = MAX_RETRIES)"
    using dead by (simp add: MAX_RETRIES_def)
  from all five have att: "attempts (sqlBatchQuery example_deadlocked_pool_query) = 5"
    by blast
  from all have
    "delays (sqlBatchQuery example_deadlocked_pool_query) =
       map (\<lambda>k. INITIAL_RETRY_DELAY * 2 ^ k) [0..<attempts (sqlBatchQuery example_deadlocked_pool_query) - 1]"
    "result (sqlBatchQuery example_deadlocked_pool_query) =
       (case example_deadlocked_pool_query (attempts (sqlBatchQuery example_deadlocked_pool_query)) of
          Succeeds \<Rightarrow> Results | Fails code \<Rightarrow> Thrown code)"
    by blast+
  then have "delays (sqlBatchQuery example_deadlocked_pool_query) =
       map (\<lambda>k. INITIAL_RETRY_DELAY * 2 ^ k) [0..<5 - 1]"
    and thrown: "result (sqlBatchQuery example_deadlocked_pool_query) = Thrown ER_LOCK_DEADLOCK"
    unfolding att by (simp_all add: example_deadlocked_pool_query_def)
  then have slept: "delays (sqlBatchQuery example_deadlocked_pool_query) = [1000, 2000, 4000, 8000]"
    by (simp add: INITIAL_RETRY_DELAY_def upt_rec [of _ "numeral _"])
  from all idle have
    "TO_PROCESS (snd (insertTrades example_deadlocked_pool_query example_pipeline)) = []"
    "trades_dex (snd (insertTrades example_deadlocked_pool_query example_pipeline)) =
       (if result (sqlBatchQuery example_deadlocked_pool_query) = Results
        then fold insert_on_duplicate_key_update (TO_PROCESS example_pipeline)
               (trades_dex example_pipeline)
        else trades_dex example_pipeline)"
    by blast+
  then have lost: "TO_PROCESS (snd (insertTrades example_deadlocked_pool_query example_pipeline)) = []"
    "trades_dex (snd (insertTrades example_deadlocked_pool_query example_pipeline)) = Map.empty"
    unfolding thrown table by simp_all
  show ?thesis
    using q run idle(1) pending written att thrown slept lost by (intro conjI)
qed

text \<open>
  Five deadlocks in a row: the write is thrown with the fifth query, after four
  delays. A fifth retry, which would succeed here, is not made.
\<close>

theorem fifth_retry_counterexample:
  "example_late_pool_query 6 = Succeeds \<and>
   attempts (sqlBatchQuery example_late_pool_query) = 5 \<and>
   result (sqlBatchQuery example_late_pool_query) = Thrown ER_LOCK_DEADLOCK \<and>
   delays (sqlBatchQuery example_late_pool_query) = [1000, 2000, 4000, 8000]"
proof -
  have dead: "\<forall>k. 1 \<le> k \<and> k < 5 \<longrightarrow> example_late_pool_query k = Fails ER_LOCK_DEADLOCK"
    by (simp add: example_late_pool_query_def)
  have att: "attempts (sqlBatchQuery example_late_pool_query) = 5"
    using dead by (intro sqlBatchQuery_attempts) (simp_all add: MAX_RETRIES_def)
  from sqlBatchQuery_spec [of example_late_pool_query] have
    "delays (sqlBatchQuery example_late_pool_query) =
       map (\<lambda>k. INITIAL_RETRY_DELAY * 2 ^ k) [0..<attempts (sqlBatchQuery example_late_pool_query) - 1]"
    "result (sqlBatchQuery example_late_pool_query) =
       (case example_late_pool_query (attempts (sqlBatchQuery example_late_pool_query)) of
          Succeeds \<Rightarrow> Results | Fails code \<Rightarrow> Thrown code)"
    by blast+
  then have "delays (sqlBatchQuery example_late_pool_query) =
       map (\<lambda>k. INITIAL_RETRY_DELAY * 2 ^ k) [0..<5 - 1]"
    and thrown: "result (sqlBatchQuery example_late_pool_query) = Thrown ER_LOCK_DEADLOCK"
    unfolding att by (simp_all add: example_late_pool_query_def)
  then have slept: "delays (sqlBatchQuery example_late_pool_query) = [1000, 2000, 4000, 8000]"
    by (simp add: INITIAL_RETRY_DELAY_def upt_rec [of _ "numeral _"])
  have "example_late_pool_query 6 = Succeeds"
    by (simp add: example_late_pool_query_def)
  with att thrown slept show ?thesis
    by (intro conjI)
qed

subsection \<open>What the upsert writes\<close>

lemma to_tuple_Inr:
  assumes "to_tuple env seen = Inr t"
  shows "t_user t = user (seen 0) \<and> t_trade_id t = trade_id (seen 0) \<and>
         t_trader_address t = trader_address (seen 0) \<and> t_token t = token (seen 0) \<and>
         t_bias t = bias (seen 0) \<and>
         convertToDecimal (Some (size_t (seen 0))) AMOUNT_DECIMALS = Inr (t_size t) \<and>
         convertToDecimal (Some (sum_open (seen 1))) AMOUNT_DECIMALS = Inr (t_sum_open t) \<and>
         convertToDecimal (Some (limit_price (seen 2))) PRICE_DECIMALS = Inr (t_limit_price t) \<and>
         convertToDecimal (exit_price (seen 3)) PRICE_DECIMALS = Inr (t_exit_price t) \<and>
         convertToSqlDate env (start_date (seen 4)) = Inr (t_start_date t) \<and>
         (case end_date (seen 5) of
            None \<Rightarrow> t_end_date t = None
          | Some d \<Rightarrow> \<exists>d'. convertToSqlDate env d = Inr d' \<and> t_end_date t = Some d') \<and>
         convertToDecimal (Some (funding (seen 6))) AMOUNT_DECIMALS = Inr (t_funding t) \<and>
         convertToDecimal (Some (realised_pnl (seen 7))) AMOUNT_DECIMALS = Inr (t_realised_pnl t) \<and>
         convertToDecimal (Some (pnl (seen 8))) AMOUNT_DECIMALS = Inr (t_pnl t) \<and>
         t_is_profitable t = is_profitable (seen 9) \<and> t_timestamp t = getSqlDate env \<and>
         t_type t = type (seen 10)"
  using assms unfolding to_tuple_def Let_def
  by (auto simp: and_then_eq_Inr split: option.splits)

lemma processorQueue_worker_pushed:
  "processorQueue_worker env rows task [] = [t] \<longleftrightarrow> to_tuple env (\<lambda>k. rows k ! task) = Inr t"
  by (simp add: processorQueue_worker_def split: sum.splits)

lemma upsert_other_key:
  "k \<noteq> t_trade_id t \<Longrightarrow> insert_on_duplicate_key_update t table k = table k"
  by (simp add: insert_on_duplicate_key_update_def split: option.splits)

lemma upsert_same_key:
  "\<exists>row. insert_on_duplicate_key_update t table (t_trade_id t) = Some row \<and>
     c_size row = t_size t \<and> c_sum_open row = t_sum_open t \<and>
     c_limit_price row = t_limit_price t \<and> c_exit_price row = t_exit_price t \<and>
     c_start_date row = t_start_date t \<and> c_end_date row = t_end_date t \<and>
     c_funding row = t_funding t \<and> c_realised_pnl row = t_realised_pnl t \<and>
     c_pnl row = t_pnl t \<and> c_is_profitable row = t_is_profitable t \<and>
     c_timestamp row = t_timestamp t \<and>
     c_sum_close row = (case table (t_trade_id t) of None \<Rightarrow> None | Some old \<Rightarrow> c_sum_close old) \<and>
     (case table (t_trade_id t) of
        Some old \<Rightarrow>
          c_user row = c_user old \<and> c_trade_id row = c_trade_id old \<and>
          c_trader_address row = c_trader_address old \<and> c_token row = c_token old \<and>
          c_bias row = c_bias old
      | None \<Rightarrow>
          c_user row = t_user t \<and> c_trade_id row = t_trade_id t \<and>
          c_trader_address row = t_trader_address t \<and> c_token row = t_token t \<and>
          c_bias row = t_bias t)"
  by (simp add: insert_on_duplicate_key_update_def split: option.splits)

lemma fold_upsert_absent_key:
  "k \<notin> t_trade_id ` set ts \<Longrightarrow> fold insert_on_duplicate_key_update ts table k = table k"
  by (induction ts arbitrary: table) (simp_all add: upsert_other_key)

lemma fold_upsert_kept_columns:
  "fold insert_on_duplicate_key_update ts table k = Some row \<Longrightarrow>
   (case table k of
      None \<Rightarrow> c_sum_close row = None
    | Some old \<Rightarrow>
        c_sum_close row = c_sum_close old \<and> c_user row = c_user old \<and>
        c_trade_id row = c_trade_id old \<and> c_trader_address row = c_trader_address old \<and>
        c_token row = c_token old \<and> c_bias row = c_bias old)"
proof (induction ts arbitrary: table)
  case Nil
  then show ?case by simp
next
  case (Cons t ts)
  let ?table = "insert_on_duplicate_key_update t table"
  from Cons.prems have "fold insert_on_duplicate_key_update ts ?table k = Some row"
    by simp
  from Cons.IH [OF this]
  have ih: "case ?table k of
      None \<Rightarrow> c_sum_close row = None
    | Some old \<Rightarrow>
        c_sum_close row = c_sum_close old \<and> c_user row = c_user old \<and>
        c_trade_id row = c_trade_id old \<and> c_trader_address row = c_trader_address old \<and>
        c_token row = c_token old \<and> c_bias row = c_bias old" .
  show ?case
  proof (cases "k = t_trade_id t")
    case False
    with ih show ?thesis by (simp add: upsert_other_key)
  next
    case True
    from upsert_same_key [of t table] obtain new where
      new: "?table (t_trade_id t) = Some new"
        "c_sum_close new = (case table (t_trade_id t) of None \<Rightarrow> None | Some old \<Rightarrow> c_sum_close old)"
        "case table (t_trade_id t) of
           Some old \<Rightarrow>
             c_user new = c_user old \<and> c_trade_id new = c_trade_id old \<and>
             c_trader_address new = c_trader_address old \<and> c_token new = c_token old \<and>
             c_bias new = c_bias old
         | None \<Rightarrow>
             c_user new = t_user t \<and> c_trade_id new = t_trade_id t \<and>
             c_trader_address new = t_trader_address t \<and> c_token new = t_token t \<and>
             c_bias new = t_bias t"
      by blast
    from ih new(1) True have "c_sum_close row = c_sum_close new \<and> c_user row = c_user new \<and>
        c_trade_id row = c_trade_id new \<and> c_trader_address row = c_trader_address new \<and>
        c_token row = c_token new \<and> c_bias row = c_bias new"
      by simp
    with new(2,3) True show ?thesis
      by (cases "table (t_trade_id t)") simp_all
  qed
qed


lemma example_row_tuple: "to_tuple example_environment (\<lambda>k. example_row) = Inr example_tuple"
  by code_simp

lemma example_pool_query_succeeds: "result (sqlBatchQuery example_pool_query) = Results"
  by code_simp

text \<open>
  Claim C5 says that every emitted row is persisted with all of its fields, the
  cumulative close among them, so that the row read back by its trade identifier is
  the emitted row. The array that \<^verbatim>\<open>processorQueue\<close> builds has no element for
  \<^verbatim>\<open>sum_close\<close>, and the statement of \<^verbatim>\<open>processPositions\<close> names the column neither in
  its column list nor in its assignments. The row below has the cumulative close 3; the
  worker converts it, the tick writes the pending tuple to an empty table, and the row
  read back by its trade identifier has \<^verbatim>\<open>NULL\<close> in \<^verbatim>\<open>sum_close\<close>.
\<close>

theorem sum_close_not_persisted_counterexample:
  "sum_close example_row = ''3'' \<and>
   processorQueue_worker example_environment (\<lambda>k. [example_row]) 0 [] = TO_PROCESS example_pipeline \<and>
   map_option c_sum_close
     (trades_dex (snd (insertTrades example_pool_query example_pipeline)) (trade_id example_row)) =
   Some None"
  by code_simp

text \<open>
  Claim C5 as amended. The worker of the processor queue turns the queued row into a
  tuple of the fields of the row object as they are when the worker reads them: the
  monetary fields through \<^verbatim>\<open>convertToDecimal\<close>, the dates through \<^verbatim>\<open>convertToSqlDate\<close>, the
  others as they are, and the server time. When that tuple is the last of its trade
  identifier in the pending list at an \<^verbatim>\<open>insertTrades\<close> tick, no tick is in progress and
  the batch query succeeds, the table holds under the trade identifier a row whose
  columns \<^verbatim>\<open>size\<close>, \<^verbatim>\<open>sum_open\<close>, \<^verbatim>\<open>limit_price\<close>, \<^verbatim>\<open>exit_price\<close>, \<^verbatim>\<open>start_date\<close>, \<^verbatim>\<open>end_date\<close>,
  \<^verbatim>\<open>funding\<close>, \<^verbatim>\<open>realised_pnl\<close>, \<^verbatim>\<open>pnl\<close>, \<^verbatim>\<open>is_profitable\<close> and \<^verbatim>\<open>timestamp\<close> are those of the
  tuple. The columns \<^verbatim>\<open>user\<close>, \<^verbatim>\<open>trade_id\<close>, \<^verbatim>\<open>trader_address\<close>, \<^verbatim>\<open>token\<close> and \<^verbatim>\<open>bias\<close> are
  written when the row is inserted and kept on every later upsert. The column
  \<^verbatim>\<open>sum_close\<close> is never written: it is \<^verbatim>\<open>NULL\<close> for a new trade identifier and keeps its
  value for one that the table already holds. The lifecycle tag is not stored.
\<close>

theorem upsert_writes_listed_columns:
  assumes worker: "processorQueue_worker env rows task [] = [t]"
    and pending: "TO_PROCESS st = ts @ t # us"
    and last: "t_trade_id t \<notin> t_trade_id ` set us"
    and idle: "\<not> is_processing st"
    and ok: "result (sqlBatchQuery pq) = Results"
  shows "\<exists>row. trades_dex (snd (insertTrades pq st)) (trade_id (rows 0 ! task)) = Some row \<and>
     convertToDecimal (Some (size_t (rows 0 ! task))) AMOUNT_DECIMALS = Inr (c_size row) \<and>
     convertToDecimal (Some (sum_open (rows 1 ! task))) AMOUNT_DECIMALS = Inr (c_sum_open row) \<and>
     convertToDecimal (Some (limit_price (rows 2 ! task))) PRICE_DECIMALS = Inr (c_limit_price row) \<and>
     convertToDecimal (exit_price (rows 3 ! task)) PRICE_DECIMALS = Inr (c_exit_price row) \<and>
     convertToSqlDate env (start_date (rows 4 ! task)) = Inr (c_start_date row) \<and>
     (case end_date (rows 5 ! task) of
        None \<Rightarrow> c_end_date row = None
      | Some d \<Rightarrow> \<exists>d'. convertToSqlDate env d = Inr d' \<and> c_end_date row = Some d') \<and>
     convertToDecimal (Some (funding (rows 6 ! task))) AMOUNT_DECIMALS = Inr (c_funding row) \<and>
     convertToDecimal (Some (realised_pnl (rows 7 ! task))) AMOUNT_DECIMALS = Inr (c_realised_pnl row) \<and>
     convertToDecimal (Some (pnl (rows 8 ! task))) AMOUNT_DECIMALS = Inr (c_pnl row) \<and>
     c_is_profitable row = is_profitable (rows 9 ! task) \<and>
     c_timestamp row = getSqlDate env \<and>
     (case trades_dex st (trade_id (rows 0 ! task)) of
        Some old \<Rightarrow>
          c_sum_close row = c_sum_close old \<and> c_user row = c_user old \<and>
          c_trade_id row = c_trade_id old \<and> c_trader_address row = c_trader_address old \<and>
          c_token row = c_token old \<and> c_bias row = c_bias old
      | None \<Rightarrow>
          c_sum_close row = None \<and>
          (trade_id (rows 0 ! task) \<notin> t_trade_id ` set ts \<longrightarrow>
             c_user row = user (rows 0 ! task) \<and> c_trade_id row = trade_id (rows 0 ! task) \<and>
             c_trader_address row = trader_address (rows 0 ! task) \<and>
             c_token row = token (rows 0 ! task) \<and> c_bias row = bias (rows 0 ! task)))"
proof -
  let ?seen = "\<lambda>k. rows k ! task"
  let ?before = "fold insert_on_duplicate_key_update ts (trades_dex st)"
  let ?after = "insert_on_duplicate_key_update t ?before"
  let ?final = "fold insert_on_duplicate_key_update us ?after"
  from worker have tuple: "to_tuple env ?seen = Inr t"
    by (simp only: processorQueue_worker_pushed)
  note fields = to_tuple_Inr [OF tuple]
  from fields have key: "t_trade_id t = trade_id (rows 0 ! task)"
    by blast
  from pending have "TO_PROCESS st \<noteq> []"
    by simp
  from insertTrades_idle [OF idle this, of pq] ok pending
  have table: "trades_dex (snd (insertTrades pq st)) = ?final"
    by simp
  from upsert_same_key [of t ?before] obtain row where
    row: "?after (t_trade_id t) = Some row"
    and written: "c_size row = t_size t" "c_sum_open row = t_sum_open t"
      "c_limit_price row = t_limit_price t" "c_exit_price row = t_exit_price t"
      "c_start_date row = t_start_date t" "c_end_date row = t_end_date t"
      "c_funding row = t_funding t" "c_realised_pnl row = t_realised_pnl t"
      "c_pnl row = t_pnl t" "c_is_profitable row = t_is_profitable t"
      "c_timestamp row = t_timestamp t"
    and first: "case ?before (t_trade_id t) of
        Some old \<Rightarrow>
          c_user row = c_user old \<and> c_trade_id row = c_trade_id old \<and>
          c_trader_address row = c_trader_address old \<and> c_token row = c_token old \<and>
          c_bias row = c_bias old
      | None \<Rightarrow>
          c_user row = t_user t \<and> c_trade_id row = t_trade_id t \<and>
          c_trader_address row = t_trader_address t \<and> c_token row = t_token t \<and>
          c_bias row = t_bias t"
    by blast
  from last have "?final (t_trade_id t) = ?after (t_trade_id t)"
    by (rule fold_upsert_absent_key)
  with row have final: "?final (t_trade_id t) = Some row"
    by simp
  have "fold insert_on_duplicate_key_update (ts @ t # us) (trades_dex st) (t_trade_id t) = Some row"
    using final by simp
  from fold_upsert_kept_columns [OF this]
  have kept: "case trades_dex st (t_trade_id t) of
      None \<Rightarrow> c_sum_close row = None
    | Some old \<Rightarrow>
        c_sum_close row = c_sum_close old \<and> c_user row = c_user old \<and>
        c_trade_id row = c_trade_id old \<and> c_trader_address row = c_trader_address old \<and>
        c_token row = c_token old \<and> c_bias row = c_bias old" .
  have fresh: "c_user row = user (rows 0 ! task) \<and> c_trade_id row = trade_id (rows 0 ! task) \<and>
             c_trader_address row = trader_address (rows 0 ! task) \<and>
             c_token row = token (rows 0 ! task) \<and> c_bias row = bias (rows 0 ! task)"
    if none: "trades_dex st (trade_id (rows 0 ! task)) = None"
      and new: "trade_id (rows 0 ! task) \<notin> t_trade_id ` set ts"
  proof -
    from new have "?before (trade_id (rows 0 ! task)) = trades_dex st (trade_id (rows 0 ! task))"
      by (rule fold_upsert_absent_key)
    with none key have "?before (t_trade_id t) = None"
      by simp
    with first have "c_user row = t_user t \<and> c_trade_id row = t_trade_id t \<and>
          c_trader_address row = t_trader_address t \<and> c_token row = t_token t \<and>
          c_bias row = t_bias t"
      by simp
    with fields show ?thesis
      by simp
  qed
  have kept': "case trades_dex st (trade_id (rows 0 ! task)) of
        Some old \<Rightarrow>
          c_sum_close row = c_sum_close old \<and> c_user row = c_user old \<and>
          c_trade_id row = c_trade_id old \<and> c_trader_address row = c_trader_address old \<and>
          c_token row = c_token old \<and> c_bias row = c_bias old
      | None \<Rightarrow>
          c_sum_close row = None \<and>
          (trade_id (rows 0 ! task) \<notin> t_trade_id ` set ts \<longrightarrow>
             c_user row = user (rows 0 ! task) \<and> c_trade_id row = trade_id (rows 0 ! task) \<and>
             c_trader_address row = trader_address (rows 0 ! task) \<and>
             c_token row = token (rows 0 ! task) \<and> c_bias row = bias (rows 0 ! task))"
    using kept fresh unfolding key by (cases "trades_dex st (trade_id (rows 0 ! task))") simp_all
  have found: "trades_dex (snd (insertTrades pq st)) (trade_id (rows 0 ! task)) = Some row"
    using final unfolding table key .
  show ?thesis
    using found fields kept' unfolding written [symmetric]
    by (intro exI [of _ row]) (simp only: simp_thms)
qed

text \<open>
  The example row, converted by the worker and written to the empty table after two
  deadlocks: amounts scaled by \<open>10 ^ 6\<close> and cut after the sixth decimal, prices scaled
  by \<open>10 ^ 18\<close>, and no cumulative close.
\<close>

theorem upsert_writes_listed_columns_witness:
  "processorQueue_worker example_environment (\<lambda>k. [example_row]) 0 [] = [example_tuple] \<and>
   TO_PROCESS example_pipeline = [] @ example_tuple # [] \<and>
   t_trade_id example_tuple \<notin> t_trade_id ` set [] \<and>
   \<not> is_processing example_pipeline \<and>
   result (sqlBatchQuery example_pool_query) = Results \<and>
   trades_dex example_pipeline (trade_id example_row) = None \<and>
   funding example_row = ''-0.0000015'' \<and>
   (\<exists>row. trades_dex (snd (insertTrades example_pool_query example_pipeline))
            (trade_id example_row) = Some row \<and>
      c_size row = Some ''7000000'' \<and> c_sum_open row = Some ''10000000'' \<and>
      c_limit_price row = Some ''100000000000000000000'' \<and>
      c_exit_price row = Some ''52500000000000000000'' \<and>
      c_start_date row = ''2024-03-30 00:00:00'' \<and> c_end_date row = None \<and>
      c_funding row = Some ''-1'' \<and> c_realised_pnl row = Some ''-142500000'' \<and>
      c_pnl row = Some ''0'' \<and>
      c_is_profitable row = 0 \<and> c_timestamp row = ''2024-03-31 09:08:20'' \<and>
      c_sum_close row = None \<and> c_user row = 7 \<and>
      c_trade_id row = ''dydx1abc-BTCUSD-LONG-4000'')"
proof -
  have worker: "processorQueue_worker example_environment (\<lambda>k. [example_row]) 0 [] = [example_tuple]"
    by (simp add: processorQueue_worker_def example_row_tuple)
  have pending: "TO_PROCESS example_pipeline = [] @ example_tuple # []"
    and idle: "\<not> is_processing example_pipeline"
    and empty: "trades_dex example_pipeline (trade_id ([example_row] ! 0)) = None"
    by (simp_all add: example_pipeline_def)
  have last: "t_trade_id example_tuple \<notin> t_trade_id ` set []"
    by simp
  have eval: "convertToDecimal (Some (size_t ([example_row] ! 0))) AMOUNT_DECIMALS =
        Inr (Some ''7000000'')"
    "convertToDecimal (Some (sum_open ([example_row] ! 0))) AMOUNT_DECIMALS =
        Inr (Some ''10000000'')"
    "convertToDecimal (Some (limit_price ([example_row] ! 0))) PRICE_DECIMALS =
        Inr (Some ''100000000000000000000'')"
    "convertToDecimal (exit_price ([example_row] ! 0)) PRICE_DECIMALS =
        Inr (Some ''52500000000000000000'')"
    "convertToDecimal (Some (funding ([example_row] ! 0))) AMOUNT_DECIMALS = Inr (Some ''-1'')"
    "convertToDecimal (Some (realised_pnl ([example_row] ! 0))) AMOUNT_DECIMALS =
        Inr (Some ''-142500000'')"
    "convertToDecimal (Some (pnl ([example_row] ! 0))) AMOUNT_DECIMALS = Inr (Some ''0'')"
    "convertToSqlDate example_environment (start_date ([example_row] ! 0)) =
        Inr ''2024-03-30 00:00:00''"
    "getSqlDate example_environment = ''2024-03-31 09:08:20''"
    by code_simp+
  have fields: "end_date ([example_row] ! 0) = None" "is_profitable ([example_row] ! 0) = 0"
    "user ([example_row] ! 0) = 7" "trade_id ([example_row] ! 0) = ''dydx1abc-BTCUSD-LONG-4000''"
    "funding example_row = ''-0.0000015''"
    by (simp_all add: example_row_def)
  have "\<exists>row. trades_dex (snd (insertTrades example_pool_query example_pipeline))
            (trade_id example_row) = Some row \<and>
      c_size row = Some ''7000000'' \<and> c_sum_open row = Some ''10000000'' \<and>
      c_limit_price row = Some ''100000000000000000000'' \<and>
      c_exit_price row = Some ''52500000000000000000'' \<and>
      c_start_date row = ''2024-03-30 00:00:00'' \<and> c_end_date row = None \<and>
      c_funding row = Some ''-1'' \<and> c_realised_pnl row = Some ''-142500000'' \<and>
      c_pnl row = Some ''0'' \<and>
      c_is_profitable row = 0 \<and> c_timestamp row = ''2024-03-31 09:08:20'' \<and>
      c_sum_close row = None \<and> c_user row = 7 \<and>
      c_trade_id row = ''dydx1abc-BTCUSD-LONG-4000''"
    using upsert_writes_listed_columns
      [OF worker pending last idle example_pool_query_succeeds]
    unfolding eval fields empty [unfolded fields] option.case sum.inject
    by (elim exE conjE) (simp del: One_nat_def add: example_row_def)
  with worker pending last idle example_pool_query_succeeds empty fields show ?thesis
    by (simp del: One_nat_def)
qed

text \<open>
  The queue holds the lane object and not a copy. When one frame opens a lane with size
  10 and then reports it with size 12, the engine pushes the same reference twice: the
  first for the row tagged \<^verbatim>\<open>open\<close>, the second after the assignments of
  \<^verbatim>\<open>updateExistingPosition\<close>. The worker, which runs after the engine, finds the object
  as the update left it, and both tuples carry the size 12 and the tag \<^verbatim>\<open>update\<close>; the
  tick then sends no notification, which it does for the tags \<^verbatim>\<open>open\<close> and \<^verbatim>\<open>close\<close>
  only.
\<close>

theorem queued_row_is_the_lane_object:
  "(let st = updatePosition [''BTCUSD''] 7 (Some ''dydx1abc'') (Some [example_open, example_update])
               (Some [example_fill]) empty_ledger;
        pending = processorQueue_worker example_environment (\<lambda>k. objects st) 0
                    (processorQueue_worker example_environment (\<lambda>k. objects st) 0 [])
    in processorQueue st = [0, 0] \<and> TRADER_POSITIONS st = [(''BTCUSD'', 0)] \<and>
       map type (objects st) = [''update''] \<and>
       map t_type pending = [''update'', ''update''] \<and>
       map t_size pending = [Some ''12000000'', Some ''12000000''] \<and>
       notifications (snd (insertTrades example_pool_query
         \<lparr> TO_PROCESS = pending, is_processing = False, trades_dex = Map.empty,
           notifications = [] \<rparr>)) = []) \<and>
   type (objects (updatePosition [''BTCUSD''] 7 (Some ''dydx1abc'') (Some [example_open])
                    (Some [example_fill]) empty_ledger) ! 0) = ''open''"
  by code_simp

section \<open>Properties of the connection supervisor\<close>

text \<open>
  Claim C7 says that after \<^verbatim>\<open>closeConnection\<close> no reconnect is attempted, the flag being
  consulted on every path that reconnects. \<^verbatim>\<open>closeConnection\<close> clears
  \<^verbatim>\<open>shouldReconnect\<close> and schedules nothing, and the \<^verbatim>\<open>close\<close> handler, which the
  watchdog's \<^verbatim>\<open>websocket.close()\<close> leads to as well, schedules a reconnect only when the
  flag is set. The \<^verbatim>\<open>error\<close> handler and the \<^verbatim>\<open>catch\<close> of the message queue call
  \<^verbatim>\<open>setTimeout(connect, RECONNECT_INTERVAL)\<close> without reading the flag: on a session
  that has been closed, a socket error or a frame that fails to parse schedules a
  reconnect.
\<close>

theorem drain_flag_not_consulted:
  "\<not> shouldReconnect (closeConnection s) \<and>
   reconnects_scheduled (closeConnection s) = reconnects_scheduled s \<and>
   reconnects_scheduled (on_close (closeConnection s)) = reconnects_scheduled s \<and>
   reconnects_scheduled (on_close (heartbeat_timeout (closeConnection s))) = reconnects_scheduled s \<and>
   reconnects_scheduled (on_error (closeConnection s)) = Suc (reconnects_scheduled s) \<and>
   reconnects_scheduled (messageQueue_worker cachedPairs u Unparsable (closeConnection s)) =
     Suc (reconnects_scheduled s)"
  by (simp add: closeConnection_def on_close_def heartbeat_timeout_def on_error_def
      messageQueue_worker_def)

text \<open>
  Claim C8 says that a frame whose account cannot be resolved forces the connection
  closed. The handler resolves the account from \<^verbatim>\<open>parsedMessage.id\<close>, but its test reads
  the field \<^verbatim>\<open>parsedMessage.account\<close> and compares it with the string \<^verbatim>\<open>"undefined"\<close> and
  with \<^verbatim>\<open>null\<close>. A snapshot frame with neither \<^verbatim>\<open>id\<close> nor \<^verbatim>\<open>account\<close> passes the test:
  nothing is closed, no reconnect is scheduled, and the snapshot is processed with an
  undefined address, which opens a lane and queues a row whose trade identifier starts
  with \<^verbatim>\<open>undefined\<close>. The connection is closed when the field \<^verbatim>\<open>account\<close> is the string
  \<^verbatim>\<open>"undefined"\<close> or \<^verbatim>\<open>null\<close>.
\<close>

theorem undefined_account_is_processed:
  "msg_id example_frame = None \<and>
   msg_account example_frame = Absent \<and>
   close_calls (messageQueue_worker [''BTCUSD''] 7 (Parsed example_frame) (connect [] [])) = 0 \<and>
   reconnects_scheduled (messageQueue_worker [''BTCUSD''] 7 (Parsed example_frame) (connect [] [])) = 0 \<and>
   TRADER_POSITIONS (ledger_state
     (messageQueue_worker [''BTCUSD''] 7 (Parsed example_frame) (connect [] []))) = [(''BTCUSD'', 0)] \<and>
   map trader_address (objects (ledger_state
     (messageQueue_worker [''BTCUSD''] 7 (Parsed example_frame) (connect [] [])))) = [None] \<and>
   map trade_id (objects (ledger_state
     (messageQueue_worker [''BTCUSD''] 7 (Parsed example_frame) (connect [] [])))) =
     [''undefined-BTCUSD-SHORT-4242''] \<and>
   processorQueue (ledger_state
     (messageQueue_worker [''BTCUSD''] 7 (Parsed example_frame) (connect [] []))) = [0] \<and>
   close_calls (messageQueue_worker [''BTCUSD''] 7
     (Parsed (example_frame \<lparr> msg_account := Str ''undefined'' \<rparr>)) (connect [] [])) = 1 \<and>
   close_calls (messageQueue_worker [''BTCUSD''] 7
     (Parsed (example_frame \<lparr> msg_account := Null \<rparr>)) (connect [] [])) = 1"
  by code_simp

end
